theory Spec2Isabelle
  imports Main "HOL-Library.Sublist" "HOL-Library.Char_ord" "HOL-Library.List_Lexorder"
begin

section \<open>Python values, strings and paths\<close>

text \<open>
  The tools return untyped Python dictionaries. A dictionary is an association list in
  insertion order (the order \<open>max\<close> and \<open>keys()\<close> iterate in); its values are the
  JSON-like values below. An exception is modelled by its message: a function that can
  raise returns \<open>exn + 'a\<close>, with \<open>Inl\<close> the uncaught exception.

  Strings are ASCII text: \<open>lower\<close> maps \<open>A..Z\<close> to \<open>a..z\<close> and leaves every other
  character alone.
\<close>

datatype pyval =
    PNone
  | PStr string
  | PInt int
  | PList "pyval list"
  | PDict "(string \<times> pyval) list"

type_synonym pydict = "(string \<times> pyval) list"

type_synonym exn = string

definition contains :: "string \<Rightarrow> string \<Rightarrow> bool" where
  \<comment> \<open>Python \<open>needle in hay\<close> on strings: a contiguous occurrence.\<close>
  "contains needle hay = sublist needle hay"

definition endswith :: "string \<Rightarrow> string \<Rightarrow> bool" where
  "endswith s suf = suffix suf s"

definition startswith :: "string \<Rightarrow> string \<Rightarrow> bool" where
  "startswith s pre = prefix pre s"

definition lower_char :: "char \<Rightarrow> char" where
  "lower_char c =
     (let n = (of_char c :: nat) in if 65 \<le> n \<and> n \<le> 90 then char_of (n + 32) else c)"

definition lower :: "string \<Rightarrow> string" where
  "lower s = map lower_char s"

definition os_path_join2 :: "string \<Rightarrow> string \<Rightarrow> string" where
  \<comment> \<open>One step of \<open>posixpath.join\<close>.\<close>
  "os_path_join2 path b =
     (if startswith b ''/'' then b
      else if path = [] \<or> endswith path ''/'' then path @ b
      else path @ ''/'' @ b)"

definition os_path_join :: "string \<Rightarrow> string list \<Rightarrow> string" where
  "os_path_join a ps = foldl os_path_join2 a ps"

section \<open>The world outside the tools\<close>

text \<open>
  Everything the tools read from or write to: the process environment (as it is after
  \<open>load_dotenv()\<close>), the working directory, the file system, the translation service,
  the \<open>re\<close> and \<open>json\<close> libraries and the \<open>dbt\<close> subprocess.

  \<^item> \<open>fs_exists p\<close>: the path \<open>p\<close> exists.
  \<^item> \<open>fs_denied p\<close>: the exception \<open>Path(p).exists()\<close> raises, \<open>None\<close> when the probe
    answers. (Before Python 3.12 \<open>exists()\<close> turns a missing path into \<open>False\<close> and
    raises every other error of \<open>stat\<close>, a permission error on the way to \<open>p\<close> among
    them; where it swallows them all, \<open>fs_denied\<close> is \<open>None\<close> everywhere.)
  \<^item> \<open>fs_walk top\<close>: the \<open>(root, files)\<close> pairs \<open>os.walk(top)\<close> yields for an existing
    directory, in traversal order (the \<open>dirs\<close> component is never read).
  \<^item> \<open>fs_rglob root dir ext\<close>: the entries \<open>(root / dir).rglob('*' + ext)\<close> yields, in
    traversal order, each as its path relative to \<open>root\<close> (what \<open>relative_to(root)\<close>
    returns).
  \<^item> \<open>fs_rglob_error root dir ext\<close>: the exception that ends that iteration once these
    entries have been yielded, \<open>None\<close> when it ends normally.
  \<^item> \<open>fs_read p\<close>: \<open>open(p).read()\<close>, the text or the exception raised.
  \<^item> \<open>fs_mkdir p\<close>: \<open>p.mkdir(parents=True, exist_ok=True)\<close>, \<open>None\<close> when it succeeds.
  \<^item> \<open>fs_write p text\<close>: opening \<open>p\<close> for writing and writing \<open>text\<close>, \<open>None\<close> when it
    succeeds.
  \<^item> \<open>gemini prompt\<close>: the translation service: an exception, or \<open>response.text\<close>
    (which the client library types as optional).
  \<^item> \<open>re_search pattern text\<close>: \<open>re.compile(pattern, re.IGNORECASE).search(text)\<close>
    finds a match.
  \<^item> \<open>json_loads line\<close>: the parsed value, \<open>None\<close> on \<open>JSONDecodeError\<close>.
  \<^item> \<open>str_hash s\<close>: the hash of the string \<open>s\<close> in this process. Python salts string
    hashes per process, and the order in which a \<open>set\<close> of strings is iterated follows
    them.
  \<^item> \<open>run_dbt exe cwd\<close>: \<open>subprocess.run([exe, "compile", "--log-format", "json"], cwd)\<close>:
    an exception, or return code, standard output and standard error.
\<close>

record world =
  getenv :: "string \<Rightarrow> string option"
  getcwd :: string
  fs_exists :: "string \<Rightarrow> bool"
  fs_denied :: "string \<Rightarrow> exn option"
  fs_walk :: "string \<Rightarrow> (string \<times> string list) list"
  fs_rglob :: "string \<Rightarrow> string \<Rightarrow> string \<Rightarrow> string list"
  fs_rglob_error :: "string \<Rightarrow> string \<Rightarrow> string \<Rightarrow> exn option"
  fs_read :: "string \<Rightarrow> exn + string"
  fs_mkdir :: "string \<Rightarrow> exn option"
  fs_write :: "string \<Rightarrow> string \<Rightarrow> exn option"
  gemini :: "string \<Rightarrow> exn + string option"
  re_search :: "string \<Rightarrow> string \<Rightarrow> bool"
  json_loads :: "string \<Rightarrow> pyval option"
  run_dbt :: "string option \<Rightarrow> string option \<Rightarrow> exn + (int \<times> string \<times> string)"
  str_hash :: "string \<Rightarrow> nat"

definition path_exists :: "world \<Rightarrow> string \<Rightarrow> exn + bool" where
  \<comment> \<open>\<open>Path(p).exists()\<close>\<close>
  "path_exists w p = (case fs_denied w p of Some e \<Rightarrow> Inl e | None \<Rightarrow> Inr (fs_exists w p))"

definition list_of_set :: "world \<Rightarrow> string list \<Rightarrow> string list" where
  \<comment> \<open>\<open>list(set(xs))\<close>: the distinct elements of \<open>xs\<close>, in the order the hashes of this
      process give them (equal hashes keep the order of first appearance).\<close>
  "list_of_set w xs = sort_key (str_hash w) (remdups xs)"

definition os_walk :: "world \<Rightarrow> string \<Rightarrow> (string \<times> string list) list" where
  \<comment> \<open>\<open>os.walk\<close> swallows the error of listing a missing directory and yields nothing.\<close>
  "os_walk w d = (if fs_exists w d then fs_walk w d else [])"

section \<open>Schema classification (\<open>sub_agents/dbt_model_analyzer.py\<close>)\<close>

definition initial_patterns :: "(string \<times> int) list" where
  "initial_patterns = [(''star_schema'', 0), (''snowflake_schema'', 0), (''data_vault'', 0)]"

definition incr :: "string \<Rightarrow> (string \<times> int) list \<Rightarrow> (string \<times> int) list" where
  \<comment> \<open>\<open>patterns[k] += 1\<close> for a key that is present.\<close>
  "incr k d = map (\<lambda>(k', v). if k' = k then (k', v + 1) else (k', v)) d"

definition any_tag :: "string list \<Rightarrow> string \<Rightarrow> bool" where
  "any_tag tags sql = list_ex (\<lambda>tag. contains tag sql) tags"

definition score_sql :: "string \<Rightarrow> (string \<times> int) list \<Rightarrow> (string \<times> int) list" where
  \<comment> \<open>The four heuristics, applied to the lower-cased text of one file.\<close>
  "score_sql sql p0 =
     (let p1 = (if contains ''join'' sql \<and> contains '' on '' sql
                then incr ''star_schema'' p0 else p0);
          p2 = (if any_tag [''hub_'', ''link_'', ''sat_''] sql
                then incr ''data_vault'' p1 else p1);
          p3 = (if any_tag [''dim_'', ''fact_''] sql
                then incr ''star_schema'' p2 else p2)
      in if any_tag [''bridge_'', ''snowflake_''] sql
         then incr ''snowflake_schema'' p3 else p3)"

fun scan_files :: "world \<Rightarrow> string \<Rightarrow> string list \<Rightarrow> (string \<times> int) list
                   \<Rightarrow> exn + (string \<times> int) list" where
  "scan_files w root [] p = Inr p"
| "scan_files w root (file # files) p =
     (if endswith file ''.sql''
      then (case fs_read w (os_path_join root [file]) of
              Inl e \<Rightarrow> Inl e
            | Inr text \<Rightarrow> scan_files w root files (score_sql (lower text) p))
      else scan_files w root files p)"

fun scan_walk :: "world \<Rightarrow> (string \<times> string list) list \<Rightarrow> (string \<times> int) list
                  \<Rightarrow> exn + (string \<times> int) list" where
  "scan_walk w [] p = Inr p"
| "scan_walk w ((root, files) # rest) p =
     (case scan_files w root files p of
        Inl e \<Rightarrow> Inl e
      | Inr p' \<Rightarrow> scan_walk w rest p')"

fun py_max_by :: "('a \<Rightarrow> int) \<Rightarrow> 'a list \<Rightarrow> 'a option" where
  \<comment> \<open>\<open>max(xs, key=f)\<close>: the first element with the greatest key; \<open>None\<close> is the
      \<open>ValueError\<close> on an empty sequence.\<close>
  "py_max_by f [] = None"
| "py_max_by f (x # xs) = Some (foldl (\<lambda>best y. if f best < f y then y else best) x xs)"

definition max_key :: "(string \<times> int) list \<Rightarrow> string option" where
  \<comment> \<open>\<open>max(patterns, key=patterns.get)\<close>: the keys are iterated in insertion order and
      compared by their values.\<close>
  "max_key d = map_option fst (py_max_by snd d)"

definition py_or :: "string option \<Rightarrow> string option \<Rightarrow> string option" where
  \<comment> \<open>\<open>a or b\<close>: \<open>None\<close> and the empty string are falsy.\<close>
  "py_or a b = (case a of None \<Rightarrow> b | Some s \<Rightarrow> if s = [] then b else Some s)"

definition target_dir :: "string \<Rightarrow> string" where
  "target_dir project_dir = os_path_join project_dir [''target'', ''compiled'']"

definition analyze_dbt_schema :: "world \<Rightarrow> string option \<Rightarrow> exn + pydict" where
  "analyze_dbt_schema w project_dir =
     (case py_or project_dir (getenv w ''DBT_PROJECT_LOCATION'') of
        None \<Rightarrow> Inl ''TypeError: expected str, bytes or os.PathLike object, not NoneType''
      | Some pd \<Rightarrow>
          (case scan_walk w (os_walk w (target_dir pd)) initial_patterns of
             Inl e \<Rightarrow> Inl e
           | Inr patterns \<Rightarrow>
               (case max_key patterns of
                  None \<Rightarrow> Inl ''ValueError: max() arg is an empty sequence''
                | Some guess \<Rightarrow>
                    Inr [(''analysis'', PDict (map (\<lambda>(k, v). (k, PInt v)) patterns)),
                         (''likely_modeling_pattern'', PStr guess)])))"

section \<open>The compile wrappers\<close>

definition is_linebreak :: "char \<Rightarrow> bool" where
  \<comment> \<open>The ASCII line boundaries of \<open>str.splitlines\<close>: LF, VT, FF, CR, FS, GS, RS.\<close>
  "is_linebreak c = ((of_char c :: nat) \<in> {10, 11, 12, 13, 28, 29, 30})"

fun splitlines_from :: "string \<Rightarrow> string \<Rightarrow> string list" where
  "splitlines_from cur [] = (if cur = [] then [] else [cur])"
| "splitlines_from cur [c] =
     (if is_linebreak c then [cur] else [cur @ [c]])"
| "splitlines_from cur (c # d # cs) =
     (if c = CHR 0x0D \<and> d = CHR 0x0A then cur # splitlines_from [] cs
      else if is_linebreak c then cur # splitlines_from [] (d # cs)
      else splitlines_from (cur @ [c]) (d # cs))"

definition splitlines :: "string \<Rightarrow> string list" where
  "splitlines s = splitlines_from [] s"

definition parse_logs :: "world \<Rightarrow> string \<Rightarrow> pyval list" where
  \<comment> \<open>One stream: every line that parses as JSON, the others dropped quietly.\<close>
  "parse_logs w stream = List.map_filter (json_loads w) (splitlines stream)"

definition project_location :: "world \<Rightarrow> string" where
  \<comment> \<open>\<open>os.getenv("DBT_PROJECT_LOCATION", os.getcwd())\<close>\<close>
  "project_location w =
     (case getenv w ''DBT_PROJECT_LOCATION'' of None \<Rightarrow> getcwd w | Some v \<Rightarrow> v)"


definition analyzer_dbt_compile :: "world \<Rightarrow> string \<Rightarrow> exn + pydict" where
  \<comment> \<open>\<open>dbt_compile\<close> of \<open>sub_agents/dbt_model_analyzer.py\<close>: the executable defaults to
      \<open>dbt\<close>, the project location has no default.\<close>
  "analyzer_dbt_compile w u =
     (let dbt_project_location = getenv w ''DBT_PROJECT_LOCATION'';
          dbt_executable = (case getenv w ''DBT_EXECUTABLE'' of
                              None \<Rightarrow> ''dbt'' | Some v \<Rightarrow> v)
      in case run_dbt w (Some dbt_executable) dbt_project_location of
           Inl e \<Rightarrow> Inl e
         | Inr (returncode, out, err) \<Rightarrow>
             Inr [(''returncode'', PInt returncode),
                  (''logs'', PList (parse_logs w out @ parse_logs w err)),
                  (''project_dir'', (case dbt_project_location of
                                       None \<Rightarrow> PNone | Some v \<Rightarrow> PStr v))])"

section \<open>Paths as \<open>pathlib\<close> sees them\<close>

fun split_on :: "char \<Rightarrow> string \<Rightarrow> string list" where
  \<comment> \<open>\<open>s.split(sep)\<close> for a one-character separator.\<close>
  "split_on sep [] = [[]]"
| "split_on sep (c # cs) =
     (if c = sep then [] # split_on sep cs
      else (case split_on sep cs of
              [] \<Rightarrow> [[c]]
            | x # xs \<Rightarrow> (c # x) # xs))"

fun join_str :: "string \<Rightarrow> string list \<Rightarrow> string" where
  \<comment> \<open>\<open>sep.join(xs)\<close>\<close>
  "join_str sep [] = []"
| "join_str sep [x] = x"
| "join_str sep (x # y # ys) = x @ sep @ join_str sep (y # ys)"

definition path_parts :: "string \<Rightarrow> string list" where
  \<comment> \<open>The components of a POSIX path: empty components and \<open>.\<close> are dropped.\<close>
  "path_parts s = filter (\<lambda>x. x \<noteq> [] \<and> x \<noteq> ''.'') (split_on CHR ''/'' s)"

definition path_root :: "string \<Rightarrow> string" where
  "path_root s =
     (if startswith s ''//'' \<and> \<not> startswith s ''///'' then ''//''
      else if startswith s ''/'' then ''/'' else [])"

definition path_str :: "string \<Rightarrow> string" where
  \<comment> \<open>\<open>str(Path(s))\<close>\<close>
  "path_str s =
     (if path_root s = [] \<and> path_parts s = [] then ''.''
      else path_root s @ join_str ''/'' (path_parts s))"

definition path_join :: "string \<Rightarrow> string \<Rightarrow> string" where
  \<comment> \<open>\<open>str(Path(a) / b)\<close>: an absolute \<open>b\<close> replaces \<open>a\<close>.\<close>
  "path_join a b = path_str (os_path_join2 a b)"

definition path_name :: "string \<Rightarrow> string" where
  \<comment> \<open>\<open>Path(s).name\<close>: the last component, empty when there is none.\<close>
  "path_name s = (if path_parts s = [] then [] else last (path_parts s))"

definition path_parent :: "string \<Rightarrow> string" where
  \<comment> \<open>\<open>str(Path(s).parent)\<close>\<close>
  "path_parent s =
     (if path_parts s = [] then path_str s
      else if path_root s = [] \<and> butlast (path_parts s) = [] then ''.''
      else path_root s @ join_str ''/'' (butlast (path_parts s)))"

definition name_stem :: "string \<Rightarrow> string" where
  \<comment> \<open>\<open>Path.stem\<close> of a file name: the name without its last suffix; a name whose only
      dot is the first or the last character has no suffix.\<close>
  "name_stem name =
     (if CHR ''.'' \<notin> set name then name
      else (let after = length (takeWhile (\<lambda>c. c \<noteq> CHR ''.'') (rev name));
                i = length name - after - 1
            in if 0 < i \<and> 0 < after then take i name else name))"

section \<open>File search (\<open>_search_for_files\<close> of \<open>tools/dbt_translate.py\<close>)\<close>

function py_replace :: "string \<Rightarrow> string \<Rightarrow> string \<Rightarrow> string" where
  \<comment> \<open>\<open>s.replace(old, new)\<close> for a non-empty \<open>old\<close>: every occurrence, left to right,
      without overlaps.\<close>
  "py_replace old new [] = []"
| "py_replace old new (c # cs) =
     (if old \<noteq> [] \<and> prefix old (c # cs)
      then new @ py_replace old new (drop (length old) (c # cs))
      else c # py_replace old new cs)"
  by pat_completeness auto
termination
  by (relation "measure (\<lambda>(old, new, s). length s)") auto

definition search_clean :: "string \<Rightarrow> string" where
  \<comment> \<open>\<open>search_term.lower().replace('.sql', '')\<close>\<close>
  "search_clean search_term = py_replace ''.sql'' [] (lower search_term)"

definition search_filename :: "string \<Rightarrow> string" where
  \<comment> \<open>\<open>Path(search_term).name.lower().replace('.sql', '')\<close>\<close>
  "search_filename search_term = py_replace ''.sql'' [] (lower (path_name search_term))"

definition file_matches :: "string \<Rightarrow> string \<Rightarrow> bool" where
  \<comment> \<open>The \<open>if\<close>/\<open>elif\<close> chain of the inner loop: each of its three branches appends the
      relative path.\<close>
  "file_matches search_term rel_path =
     (let file_name_clean = lower (name_stem (path_name rel_path)) in
      if search_filename search_term = file_name_clean
         \<or> contains (search_filename search_term) file_name_clean then True
      else if search_clean search_term = file_name_clean
         \<or> contains (search_clean search_term) file_name_clean then True
      else if contains (search_clean search_term) (lower rel_path) then True
      else False)"

definition search_dirs :: "string list" where
  "search_dirs = [''models'', ''macros'', ''analyses'', ''tests'']"

fun matches_for_exts :: "world \<Rightarrow> string \<Rightarrow> string \<Rightarrow> string \<Rightarrow> string list
                           \<Rightarrow> exn + string list" where
  \<comment> \<open>The loop over the extensions inside one search directory: the matches it appends,
      or the exception an \<open>rglob\<close> iteration ends with.\<close>
  "matches_for_exts w dbt_path search_term search_dir [] = Inr []"
| "matches_for_exts w dbt_path search_term search_dir (ext # exts) =
     (case fs_rglob_error w dbt_path search_dir ext of
        Some e \<Rightarrow> Inl e
      | None \<Rightarrow>
          (case matches_for_exts w dbt_path search_term search_dir exts of
             Inl e \<Rightarrow> Inl e
           | Inr ms \<Rightarrow>
               Inr (filter (file_matches search_term) (fs_rglob w dbt_path search_dir ext)
                    @ ms)))"

definition matches_in_dir :: "world \<Rightarrow> string \<Rightarrow> string \<Rightarrow> string list \<Rightarrow> string
                              \<Rightarrow> exn + string list" where
  \<comment> \<open>The matches one search directory adds, in the order they are appended.\<close>
  "matches_in_dir w dbt_path search_term extensions search_dir =
     (case path_exists w (path_join dbt_path search_dir) of
        Inl e \<Rightarrow> Inl e
      | Inr found \<Rightarrow>
          if \<not> found then Inr []
          else matches_for_exts w dbt_path search_term search_dir extensions)"

fun matches_in_dirs :: "world \<Rightarrow> string \<Rightarrow> string \<Rightarrow> string list \<Rightarrow> string list
                          \<Rightarrow> exn + string list" where
  "matches_in_dirs w dbt_path search_term extensions [] = Inr []"
| "matches_in_dirs w dbt_path search_term extensions (search_dir # rest) =
     (case matches_in_dir w dbt_path search_term extensions search_dir of
        Inl e \<Rightarrow> Inl e
      | Inr ms \<Rightarrow>
          (case matches_in_dirs w dbt_path search_term extensions rest of
             Inl e \<Rightarrow> Inl e
           | Inr ms' \<Rightarrow> Inr (ms @ ms')))"

definition search_for_files :: "world \<Rightarrow> string \<Rightarrow> string \<Rightarrow> string list
                                \<Rightarrow> exn + string list" where
  \<comment> \<open>\<open>dbt_root\<close> is a parameter of the source function, as here. The function has no
      \<open>try\<close>: an exception of a probe or of a listing leaves it.\<close>
  "search_for_files w dbt_root search_term extensions =
     (let dbt_path = project_location w in
      case matches_in_dirs w dbt_path search_term extensions search_dirs of
        Inl e \<Rightarrow> Inl e
      | Inr matches \<Rightarrow> Inr (sort (remdups matches)))"

section \<open>Translation (\<open>dbt_translate\<close>)\<close>

fun show_nat :: "nat \<Rightarrow> string" where
  "show_nat n =
     (if n < 10 then [char_of (48 + n)]
      else show_nat (n div 10) @ [char_of (48 + n mod 10)])"

declare show_nat.simps [simp del]

definition nl :: string where
  "nl = [CHR 0x0A]"

definition translate_prompt :: "string \<Rightarrow> string \<Rightarrow> string \<Rightarrow> string" where
  "translate_prompt source_warehouse target_warehouse source_content =
     ''Translate this dbt code from '' @ source_warehouse @ '' to '' @ target_warehouse
       @ '' syntax.'' @ nl
       @ ''Only return the translated SQL/code, no explanations.'' @ nl @ nl
       @ ''Original code:'' @ nl @ source_content"

definition opt_str :: "string option \<Rightarrow> pyval" where
  "opt_str v = (case v of None \<Rightarrow> PNone | Some s \<Rightarrow> PStr s)"

definition write_translated :: "world \<Rightarrow> string \<Rightarrow> string option \<Rightarrow> exn option" where
  \<comment> \<open>The body of the last \<open>try\<close>: open the file for writing, then write. Writing
      \<open>None\<close> raises \<open>TypeError\<close> once the file is open.\<close>
  "write_translated w translated_file translated_content =
     (case translated_content of
        Some text \<Rightarrow> fs_write w translated_file text
      | None \<Rightarrow>
          (case fs_write w translated_file [] of
             Some e \<Rightarrow> Some e
           | None \<Rightarrow> Some ''write() argument must be str, not None''))"

definition translate_file :: "world \<Rightarrow> string \<Rightarrow> string \<Rightarrow> string \<Rightarrow> string \<Rightarrow> exn + pydict" where
  \<comment> \<open>\<open>dbt_translate\<close> from "Read source content" on, with \<open>actual_file_path\<close> settled.\<close>
  "translate_file w file_path actual_file_path source_warehouse target_warehouse =
     (let dbt_project_location = project_location w;
          source_file = path_join dbt_project_location actual_file_path
      in case fs_read w source_file of
           Inl e \<Rightarrow>
             Inr [(''status'', PStr ''error''),
                  (''message'', PStr (''Error reading file: '' @ e)),
                  (''translated_content'', PNone),
                  (''saved_path'', PNone)]
         | Inr source_content \<Rightarrow>
             (case gemini w (translate_prompt source_warehouse target_warehouse source_content) of
                Inl e \<Rightarrow>
                  Inr [(''status'', PStr ''error''),
                       (''message'', PStr (''Error during translation: '' @ e)),
                       (''translated_content'', PNone),
                       (''saved_path'', PNone)]
              | Inr translated_content \<Rightarrow>
                  (let translated_dir =
                         path_join (path_join dbt_project_location ''translated'')
                                   target_warehouse;
                       translated_file = path_join translated_dir actual_file_path
                   in case fs_mkdir w (path_parent translated_file) of
                        Some e \<Rightarrow> Inl e
                      | None \<Rightarrow>
                          (case write_translated w translated_file translated_content of
                             Some e \<Rightarrow>
                               Inr [(''status'', PStr ''error''),
                                    (''message'', PStr (''Error writing translated file: '' @ e)),
                                    (''translated_content'', opt_str translated_content),
                                    (''saved_path'', PNone)]
                           | None \<Rightarrow>
                               Inr [(''status'', PStr ''success''),
                                    (''message'',
                                     PStr (''Successfully translated '' @ actual_file_path
                                           @ '' from '' @ source_warehouse
                                           @ '' to '' @ target_warehouse)),
                                    (''translated_content'', opt_str translated_content),
                                    (''saved_path'', PStr translated_file),
                                    (''source_file'', PStr source_file),
                                    (''original_path'',
                                     (if file_path \<noteq> actual_file_path
                                      then PStr file_path else PNone))]))))"

definition q :: string where
  \<comment> \<open>the single quote\<close>
  "q = [CHR 0x27]"

definition not_found_message :: "string \<Rightarrow> string" where
  "not_found_message file_path =
     ''File not found at '' @ q @ file_path @ q
       @ ''. No similar files found in the dbt project. ''
       @ ''Please provide the full path relative to the dbt project root.''"

definition clarification_message :: "string \<Rightarrow> string list \<Rightarrow> string" where
  "clarification_message file_path suggestions =
     ''File not found at exact path '' @ q @ file_path @ q @ ''. Found ''
       @ show_nat (length suggestions) @ '' possible matches:'' @ nl @ ''  - ''
       @ join_str (nl @ ''  - '') (take 10 suggestions) @ nl @ nl
       @ ''Please specify which file you want to translate ''
       @ ''using the full path from the list above.''"

definition dbt_translate :: "world \<Rightarrow> string \<Rightarrow> string \<Rightarrow> string \<Rightarrow> exn + pydict" where
  "dbt_translate w file_path source_warehouse target_warehouse =
     (let dbt_project_location = project_location w in
      case path_exists w (path_join dbt_project_location file_path) of
        Inl e \<Rightarrow> Inl e
      | Inr found \<Rightarrow>
          if \<not> found
          then (case search_for_files w dbt_project_location file_path [''.sql''] of
                  Inl e \<Rightarrow> Inl e
                | Inr suggestions \<Rightarrow>
                    if suggestions = []
                    then Inr [(''status'', PStr ''error''),
                              (''message'', PStr (not_found_message file_path)),
                              (''translated_content'', PNone),
                              (''saved_path'', PNone),
                              (''suggestions'', PList [])]
                    else if length suggestions = 1
                    then translate_file w file_path (hd suggestions)
                           source_warehouse target_warehouse
                    else Inr [(''status'', PStr ''clarification_needed''),
                              (''message'', PStr (clarification_message file_path suggestions)),
                              (''translated_content'', PNone),
                              (''saved_path'', PNone),
                              (''suggestions'', PList (map PStr (take 10 suggestions))),
                              (''original_path'', PStr file_path)])
          else translate_file w file_path file_path source_warehouse target_warehouse)"

section \<open>Dialect scan (\<open>dbt_identify_translation_candidates\<close>)\<close>

definition bs :: string where
  \<comment> \<open>the backslash\<close>
  "bs = [CHR 0x5C]"

definition WAREHOUSE_PATTERNS :: "(string \<times> string list) list" where
  "WAREHOUSE_PATTERNS =
     [(''snowflake'',
       [bs @ ''bIFF'' @ bs @ ''s*'' @ bs @ ''('',
        bs @ ''bFLATTEN'' @ bs @ ''s*'' @ bs @ ''('',
        bs @ ''bLATERAL'' @ bs @ ''s+FLATTEN'',
        bs @ ''bVARIANT'' @ bs @ ''b'',
        bs @ ''bQUALIFY'' @ bs @ ''b'',
        bs @ ''$'' @ bs @ ''d+'',
        ''::'' @ bs @ ''s*VARIANT'',
        ''ARRAY_AGG'' @ bs @ ''s*'' @ bs @ ''([^)]*'' @ bs @ '')'' @ bs @ ''s+WITHIN''
          @ bs @ ''s+GROUP'']),
      (''bigquery'',
       [bs @ ''bSTRUCT'' @ bs @ ''s*'' @ bs @ ''('',
        bs @ ''bARRAY'' @ bs @ ''s*'' @ bs @ ''['',
        bs @ ''bUNNEST'' @ bs @ ''s*'' @ bs @ ''('',
        bs @ ''bSAFE_CAST'' @ bs @ ''s*'' @ bs @ ''('',
        bs @ ''bFORMAT_DATE'' @ bs @ ''s*'' @ bs @ ''('',
        bs @ ''bPARSE_DATE'' @ bs @ ''s*'' @ bs @ ''('',
        [CHR 0x60] @ ''[^'' @ [CHR 0x60] @ '']+'' @ bs @ ''.[^'' @ [CHR 0x60] @ '']+'' @ bs
          @ ''.[^'' @ [CHR 0x60] @ '']+'' @ [CHR 0x60],
        bs @ ''bGENERATE_UUID'' @ bs @ ''s*'' @ bs @ ''('']),
      (''redshift'',
       [bs @ ''bDISTKEY'' @ bs @ ''b'',
        bs @ ''bSORTKEY'' @ bs @ ''b'',
        bs @ ''bCOPY'' @ bs @ ''s+'',
        bs @ ''bUNLOAD'' @ bs @ ''s+'',
        bs @ ''bLISTAGG'' @ bs @ ''s*'' @ bs @ ''('',
        bs @ ''bDATEADD'' @ bs @ ''s*'' @ bs @ ''('',
        bs @ ''bDATEDIFF'' @ bs @ ''s*'' @ bs @ ''('',
        bs @ ''bGETDATE'' @ bs @ ''s*'' @ bs @ ''('']),
      (''postgres'',
       [''::'' @ bs @ ''s*'' @ bs @ ''w+'',
        bs @ ''bGENERATE_SERIES'' @ bs @ ''s*'' @ bs @ ''('',
        bs @ ''bARRAY_AGG'' @ bs @ ''s*'' @ bs @ ''('',
        bs @ ''bSTRING_AGG'' @ bs @ ''s*'' @ bs @ ''('',
        bs @ ''bREGEXP_MATCHES'' @ bs @ ''s*'' @ bs @ ''('',
        bs @ ''bJSONB'' @ bs @ ''b'',
        bs @ ''bCROSSTAB'' @ bs @ ''s*'' @ bs @ ''(''])]"

definition is_space :: "char \<Rightarrow> bool" where
  \<comment> \<open>ASCII whitespace, as \<open>str.strip()\<close> removes it\<close>
  "is_space c = ((of_char c :: nat) \<in> {9, 10, 11, 12, 13, 28, 29, 30, 31, 32})"

definition strip :: "string \<Rightarrow> string" where
  "strip s = rev (dropWhile is_space (rev (dropWhile is_space s)))"

definition pattern_desc :: "string \<Rightarrow> string" where
  \<comment> \<open>\<open>p.split('#')[-1].strip() if '#' in str(p) else p\<close>\<close>
  "pattern_desc p =
     (if contains ''#'' p then strip (last (split_on CHR ''#'' p)) else p)"

record candidate =
  cand_file :: string
  full_path :: string
  detected_syntax :: "string list"
  pattern_count :: nat

datatype event =
    LoadDotenv
  | Exists string
  | Rglob string
  | Open string
  | Warning string

text \<open>
  The scan gives its result, a record or an uncaught exception, together with the trace
  of what it touched, in order: the \<open>.env\<close> lookup of \<open>load_dotenv()\<close>, every directory
  probed or listed, every file opened, and every warning printed. (The progress lines it
  prints are left out.) Only the body of the per-file loop stands in a \<open>try\<close>: the probe
  of a search directory and the listing of it do not.
\<close>

definition detected_patterns :: "world \<Rightarrow> string list \<Rightarrow> string \<Rightarrow> string list" where
  \<comment> \<open>The description of every pattern that is found in the content, in table order.\<close>
  "detected_patterns w patterns content =
     map pattern_desc (filter (\<lambda>pattern. re_search w pattern content) patterns)"

definition scan_file :: "world \<Rightarrow> string \<Rightarrow> string list \<Rightarrow> string
                         \<Rightarrow> event list \<times> candidate list" where
  \<comment> \<open>The body of the \<open>try\<close> for one file, given by its path relative to the project;
      the \<open>except\<close> branch prints the warning and goes on.\<close>
  "scan_file w dbt_path patterns rel_path =
     (let sql_file = path_join dbt_path rel_path in
      case fs_read w sql_file of
        Inl e \<Rightarrow>
          ([Open sql_file,
            Warning (''Warning: Could not read '' @ sql_file @ '': '' @ e)], [])
      | Inr content \<Rightarrow>
          (let detected = detected_patterns w patterns content in
           if detected \<noteq> []
           then ([Open sql_file],
                 [\<lparr>cand_file = rel_path, full_path = sql_file,
                   detected_syntax = list_of_set w detected,
                   pattern_count = length detected\<rparr>])
           else ([Open sql_file], [])))"

fun scan_sql_files :: "world \<Rightarrow> string \<Rightarrow> string list \<Rightarrow> string list
                       \<Rightarrow> event list \<times> candidate list" where
  "scan_sql_files w dbt_path patterns [] = ([], [])"
| "scan_sql_files w dbt_path patterns (rel_path # rest) =
     (let (ev, cs) = scan_file w dbt_path patterns rel_path;
          (ev', cs') = scan_sql_files w dbt_path patterns rest
      in (ev @ ev', cs @ cs'))"

definition scan_dir :: "world \<Rightarrow> string \<Rightarrow> string list \<Rightarrow> string
                        \<Rightarrow> event list \<times> (exn + candidate list)" where
  "scan_dir w dbt_path patterns search_dir =
     (let dir_path = path_join dbt_path search_dir in
      case path_exists w dir_path of
        Inl e \<Rightarrow> ([Exists dir_path], Inl e)
      | Inr found \<Rightarrow>
          if \<not> found then ([Exists dir_path], Inr [])
          else (let (ev, cs) = scan_sql_files w dbt_path patterns
                                 (fs_rglob w dbt_path search_dir ''.sql'')
                in (Exists dir_path # Rglob dir_path # ev,
                    (case fs_rglob_error w dbt_path search_dir ''.sql'' of
                       Some e \<Rightarrow> Inl e
                     | None \<Rightarrow> Inr cs))))"

fun scan_dirs :: "world \<Rightarrow> string \<Rightarrow> string list \<Rightarrow> string list
                  \<Rightarrow> event list \<times> (exn + candidate list)" where
  "scan_dirs w dbt_path patterns [] = ([], Inr [])"
| "scan_dirs w dbt_path patterns (search_dir # rest) =
     (let (ev, r) = scan_dir w dbt_path patterns search_dir in
      case r of
        Inl e \<Rightarrow> (ev, Inl e)
      | Inr cs \<Rightarrow>
          (let (ev', r') = scan_dirs w dbt_path patterns rest in
           (ev @ ev', (case r' of Inl e \<Rightarrow> Inl e | Inr cs' \<Rightarrow> Inr (cs @ cs')))))"

definition sort_candidates :: "candidate list \<Rightarrow> candidate list" where
  \<comment> \<open>\<open>candidates.sort(key=pattern_count, reverse=True)\<close>: stable, greatest first.\<close>
  "sort_candidates cs = sort_key (\<lambda>c. - int (pattern_count c)) cs"

definition candidate_dict :: "candidate \<Rightarrow> pyval" where
  "candidate_dict c =
     PDict [(''file'', PStr (cand_file c)),
            (''full_path'', PStr (full_path c)),
            (''detected_syntax'', PList (map PStr (detected_syntax c))),
            (''pattern_count'', PInt (int (pattern_count c)))]"

definition unknown_warehouse_message :: "string \<Rightarrow> string" where
  "unknown_warehouse_message source_warehouse =
     ''Unknown source warehouse '' @ q @ source_warehouse @ q @ ''. Supported: ''
       @ join_str '', '' (map fst WAREHOUSE_PATTERNS)"

definition scan_candidates :: "world \<Rightarrow> string
                               \<Rightarrow> event list \<times> (exn + candidate list)" where
  \<comment> \<open>The walk and the sort, for a source warehouse that passed validation.\<close>
  "scan_candidates w source_warehouse =
     (case map_of WAREHOUSE_PATTERNS (lower source_warehouse) of
        None \<Rightarrow> ([], Inr [])
      | Some patterns \<Rightarrow>
          (let (ev, r) = scan_dirs w (project_location w) patterns search_dirs
           in (ev, (case r of Inl e \<Rightarrow> Inl e | Inr cs \<Rightarrow> Inr (sort_candidates cs)))))"

definition scan_report :: "string \<Rightarrow> string option \<Rightarrow> candidate list \<Rightarrow> pydict" where
  \<comment> \<open>The two \<open>success\<close> records, from "Sort by number of patterns detected" on.\<close>
  "scan_report source_warehouse target_warehouse candidates =
     (if candidates = []
      then [(''status'', PStr ''success''),
            (''message'',
             PStr (''No '' @ source_warehouse @ ''-specific syntax detected in the ''
                   @ ''dbt project. Your project may already be warehouse-agnostic ''
                   @ ''or using a different warehouse syntax.'')),
            (''candidates'', PList []),
            (''source_warehouse'', PStr source_warehouse),
            (''target_warehouse'', opt_str target_warehouse)]
      else [(''status'', PStr ''success''),
            (''message'',
             PStr (''Found '' @ show_nat (length candidates) @ '' file(s) with ''
                   @ source_warehouse
                   @ ''-specific syntax that may need translation''
                   @ (case py_or target_warehouse None of
                        None \<Rightarrow> [] | Some t \<Rightarrow> '' to '' @ t)
                   @ ''.'')),
            (''candidates'', PList (map candidate_dict candidates)),
            (''total_files'', PInt (int (length candidates))),
            (''source_warehouse'', PStr source_warehouse),
            (''target_warehouse'', opt_str target_warehouse)])"

definition dbt_identify_translation_candidates ::
  "world \<Rightarrow> string \<Rightarrow> string option \<Rightarrow> event list \<times> (exn + pydict)" where
  "dbt_identify_translation_candidates w source_warehouse target_warehouse =
     (if lower source_warehouse \<notin> set (map fst WAREHOUSE_PATTERNS)
      then ([LoadDotenv],
            Inr [(''status'', PStr ''error''),
                 (''message'', PStr (unknown_warehouse_message source_warehouse)),
                 (''candidates'', PList [])])
      else (let (ev, r) = scan_candidates w source_warehouse in
            (LoadDotenv # ev,
             (case r of
                Inl e \<Rightarrow> Inl e
              | Inr candidates \<Rightarrow>
                  Inr (scan_report source_warehouse target_warehouse candidates)))))"

section \<open>Example projects\<close>

definition blank_world :: world where
  "blank_world =
     \<lparr>getenv = (\<lambda>_. None), getcwd = ''/proj'', fs_exists = (\<lambda>_. False),
      fs_denied = (\<lambda>_. None),
      fs_walk = (\<lambda>_. []), fs_rglob = (\<lambda>_ _ _. []), fs_rglob_error = (\<lambda>_ _ _. None),
      fs_read = (\<lambda>_. Inl ''No such file or directory''),
      fs_mkdir = (\<lambda>_. None), fs_write = (\<lambda>_ _. None),
      gemini = (\<lambda>_. Inr (Some ''select 1'')),
      re_search = (\<lambda>_ _. False), json_loads = (\<lambda>_. None),
      run_dbt = (\<lambda>_ _. Inr (0, [], [])), str_hash = (\<lambda>_. 0)\<rparr>"

definition tie_world :: world where
  "tie_world = blank_world
     \<lparr>fs_exists := (\<lambda>p. p = ''/proj/target/compiled''),
      fs_walk := (\<lambda>p. if p = ''/proj/target/compiled''
                        then [(''/proj/target/compiled'', [''a.sql'', ''notes.txt''])] else []),
      fs_read := (\<lambda>p. if p = ''/proj/target/compiled/a.sql''
                        then Inr ''select * from HUB_customer, bridge_x''
                        else Inl ''No such file or directory'')\<rparr>"

definition star_world :: world where
  "star_world = blank_world
     \<lparr>fs_exists := (\<lambda>p. p = ''/proj/target/compiled''),
      fs_walk := (\<lambda>p. if p = ''/proj/target/compiled''
                        then [(''/proj/target/compiled'', []),
                              (''/proj/target/compiled/shop/models'',
                               [''dim_customers.sql'', ''fact_orders.sql''])]
                        else []),
      fs_read := (\<lambda>p. if p = ''/proj/target/compiled/shop/models/dim_customers.sql''
                        then Inr ''select id, name from raw.customers as dim_customers''
                        else if p = ''/proj/target/compiled/shop/models/fact_orders.sql''
                        then Inr ''select * from raw.orders o JOIN dim_customers c ON o.cid = c.id''
                        else Inl ''No such file or directory'')\<rparr>"

definition unreadable_world :: world where
  "unreadable_world = blank_world
     \<lparr>fs_exists := (\<lambda>p. p \<in> {''/proj/target/compiled'', ''/proj/models''}),
      fs_walk := (\<lambda>p. if p = ''/proj/target/compiled''
                        then [(''/proj/target/compiled'', [''locked.sql'', ''dim_users.sql''])]
                        else []),
      fs_rglob := (\<lambda>root dir ext.
                     if root = ''/proj'' \<and> dir = ''models'' \<and> ext = ''.sql''
                     then [''models/locked.sql'', ''models/dim_users.sql''] else []),
      fs_read := (\<lambda>p. if p \<in> {''/proj/target/compiled/dim_users.sql'',
                                  ''/proj/models/dim_users.sql''}
                        then Inr ''select iff(a, b, c) from dim_users''
                        else Inl ''[Errno 13] Permission denied''),
      re_search := (\<lambda>pattern content.
                     pattern = bs @ ''bIFF'' @ bs @ ''s*'' @ bs @ ''(''
                     \<and> contains ''iff('' (lower content))\<rparr>"

definition snowflake_world :: world where
  "snowflake_world = blank_world
     \<lparr>fs_exists := (\<lambda>p. p = ''/proj/models''),
      fs_rglob := (\<lambda>root dir ext.
                     if root = ''/proj'' \<and> dir = ''models'' \<and> ext = ''.sql''
                     then [''models/plain.sql'', ''models/stg_events.sql''] else []),
      fs_read := (\<lambda>p. if p = ''/proj/models/stg_events.sql''
                        then Inr ''SELECT IFF(a,b,c), FLATTEN(x) FROM t''
                        else if p = ''/proj/models/plain.sql'' then Inr ''select 1''
                        else Inl ''No such file or directory''),
      re_search := (\<lambda>pattern content.
                     (pattern = bs @ ''bIFF'' @ bs @ ''s*'' @ bs @ ''(''
                        \<and> contains ''iff('' (lower content))
                     \<or> (pattern = bs @ ''bFLATTEN'' @ bs @ ''s*'' @ bs @ ''(''
                        \<and> contains ''flatten('' (lower content)))\<rparr>"

definition search_world :: world where
  "search_world = blank_world
     \<lparr>getenv := (\<lambda>v. if v = ''DBT_PROJECT_LOCATION'' then Some ''/srv/shop'' else None),
      fs_exists := (\<lambda>p. p \<in> {''/srv/shop/models'', ''/srv/shop/macros''}),
      fs_rglob := (\<lambda>root dir ext.
                     if root = ''/srv/shop'' \<and> dir = ''models'' \<and> ext = ''.sql''
                     then [''models/staging/stg_users.sql'', ''models/users_snapshot.sql'',
                           ''models/marts/dim_users.sql'', ''models/marts/fact_orders.sql'']
                     else if root = ''/srv/shop'' \<and> dir = ''macros'' \<and> ext = ''.sql''
                     then [''macros/cents_to_dollars.sql''] else [])\<rparr>"

definition translate_world :: world where
  "translate_world = search_world
     \<lparr>fs_read := (\<lambda>p. if p = ''/srv/shop/macros/cents_to_dollars.sql''
                        then Inr ''select iff(cents > 0, cents / 100, 0)''
                        else Inl ''No such file or directory''),
      gemini := (\<lambda>prompt. Inr (Some ''select if(cents > 0, cents / 100, 0)''))\<rparr>"



section \<open>The resolution rule as the specification words it\<close>

text \<open>
  The claim's wording: the search term is lower-cased and a trailing \<open>.sql\<close> is
  stripped, and a file matches exactly when its lower-cased stem equals the normalized
  term, or contains it, or its lower-cased relative path contains it. These two
  definitions follow that wording; they are compared with \<open>search_clean\<close> and
  \<open>file_matches\<close>, which follow the code.
\<close>

definition spec_normalize :: "string \<Rightarrow> string" where
  "spec_normalize search_term =
     (let t = lower search_term in
      if endswith t ''.sql'' then take (length t - 4) t else t)"

definition spec_file_matches :: "string \<Rightarrow> string \<Rightarrow> bool" where
  "spec_file_matches search_term rel_path =
     (let n = spec_normalize search_term;
          stem = lower (name_stem (path_name rel_path))
      in stem = n \<or> contains n stem \<or> contains n (lower rel_path))"

section \<open>The result payload as the specification words it\<close>



section \<open>Properties of the schema classification\<close>

lemma incr_keys: "map fst (incr k d) = map fst d"
  by (induction d) (auto simp: incr_def)

lemma score_sql_keys: "map fst (score_sql sql p) = map fst p"
  by (simp add: score_sql_def Let_def incr_keys)

lemma scan_files_keys:
  "scan_files w root files p = Inr p' \<Longrightarrow> map fst p' = map fst p"
  by (induction files arbitrary: p) (auto split: if_splits sum.splits simp: score_sql_keys)

lemma scan_walk_keys:
  "scan_walk w walk p = Inr p' \<Longrightarrow> map fst p' = map fst p"
proof (induction walk arbitrary: p)
  case Nil
  then show ?case by simp
next
  case (Cons x walk)
  obtain root files where x: "x = (root, files)" by (cases x)
  from Cons.prems x obtain p1 where
    p1: "scan_files w root files p = Inr p1" and rest: "scan_walk w walk p1 = Inr p'"
    by (auto split: sum.splits)
  from Cons.IH [OF rest] scan_files_keys [OF p1] show ?case by simp
qed

lemma three_keys:
  "map fst p = [k1, k2, k3] \<Longrightarrow> \<exists>a b c. p = [(k1, a), (k2, b), (k3, c)]"
  by (cases p; cases "tl p"; cases "tl (tl p)") auto

lemma max_key_three:
  "max_key [(k1, a), (k2, b), (k3, c)] =
     Some (if b \<le> a \<and> c \<le> a then k1 else if c \<le> b then k2 else k3)"
  by (auto simp: max_key_def)

lemma scan_files_no_sql:
  "\<forall>f \<in> set files. \<not> endswith f ''.sql'' \<Longrightarrow> scan_files w root files p = Inr p"
  by (induction files) auto

lemma scan_walk_no_sql:
  "\<forall>(root, files) \<in> set walk. \<forall>f \<in> set files. \<not> endswith f ''.sql''
     \<Longrightarrow> scan_walk w walk p = Inr p"
  by (induction walk) (auto simp: scan_files_no_sql)

text \<open>
  Claim C4. Once the project directory is resolved, a compiled directory that is missing, or
  that holds no file named \<open>*.sql\<close>, gives all three scores zero and the guess
  \<open>star_schema\<close>, as a returned record and not as an exception. Whatever is scanned, the
  guess of a returned record is the first label, in the order \<open>star_schema\<close>,
  \<open>snowflake_schema\<close>, \<open>data_vault\<close>, that reaches the greatest score.
\<close>

theorem classify_default_and_tie_break:
  assumes "py_or project_dir (getenv w ''DBT_PROJECT_LOCATION'') = Some pd"
  shows "((\<not> fs_exists w (target_dir pd)
           \<or> (\<forall>(root, files) \<in> set (fs_walk w (target_dir pd)).
                 \<forall>f \<in> set files. \<not> endswith f ''.sql''))
          \<longrightarrow> analyze_dbt_schema w project_dir =
                Inr [(''analysis'', PDict [(''star_schema'', PInt 0),
                                           (''snowflake_schema'', PInt 0),
                                           (''data_vault'', PInt 0)]),
                     (''likely_modeling_pattern'', PStr ''star_schema'')])
       \<and> (\<forall>r. analyze_dbt_schema w project_dir = Inr r
            \<longrightarrow> (\<exists>a b c.
                   r = [(''analysis'', PDict [(''star_schema'', PInt a),
                                              (''snowflake_schema'', PInt b),
                                              (''data_vault'', PInt c)]),
                        (''likely_modeling_pattern'',
                         PStr (if b \<le> a \<and> c \<le> a then ''star_schema''
                               else if c \<le> b then ''snowflake_schema''
                               else ''data_vault''))]))"
proof (intro conjI impI allI)
  assume empty: "\<not> fs_exists w (target_dir pd)
     \<or> (\<forall>(root, files) \<in> set (fs_walk w (target_dir pd)).
           \<forall>f \<in> set files. \<not> endswith f ''.sql'')"
  have "scan_walk w (os_walk w (target_dir pd)) initial_patterns = Inr initial_patterns"
  proof (cases "fs_exists w (target_dir pd)")
    case True
    with empty show ?thesis by (simp add: os_walk_def scan_walk_no_sql)
  next
    case False
    then show ?thesis by (simp add: os_walk_def)
  qed
  with assms show "analyze_dbt_schema w project_dir =
      Inr [(''analysis'', PDict [(''star_schema'', PInt 0), (''snowflake_schema'', PInt 0),
                                 (''data_vault'', PInt 0)]),
           (''likely_modeling_pattern'', PStr ''star_schema'')]"
    by (simp add: analyze_dbt_schema_def initial_patterns_def max_key_three)
next
  fix r
  assume r: "analyze_dbt_schema w project_dir = Inr r"
  from r assms obtain p where
    p: "scan_walk w (os_walk w (target_dir pd)) initial_patterns = Inr p"
    by (auto simp: analyze_dbt_schema_def split: sum.splits)
  from scan_walk_keys [OF p] obtain a b c where
    abc: "p = [(''star_schema'', a), (''snowflake_schema'', b), (''data_vault'', c)]"
    using three_keys [of p "''star_schema''" "''snowflake_schema''" "''data_vault''"]
    by (auto simp: initial_patterns_def)
  from r assms p abc
  have "r = [(''analysis'', PDict [(''star_schema'', PInt a), (''snowflake_schema'', PInt b),
                                   (''data_vault'', PInt c)]),
             (''likely_modeling_pattern'',
              PStr (if b \<le> a \<and> c \<le> a then ''star_schema''
                    else if c \<le> b then ''snowflake_schema'' else ''data_vault''))]"
    by (simp add: analyze_dbt_schema_def max_key_three del: max_key_def)
  then show "\<exists>a b c.
      r = [(''analysis'', PDict [(''star_schema'', PInt a), (''snowflake_schema'', PInt b),
                                 (''data_vault'', PInt c)]),
           (''likely_modeling_pattern'',
            PStr (if b \<le> a \<and> c \<le> a then ''star_schema''
                  else if c \<le> b then ''snowflake_schema'' else ''data_vault''))]"
    by blast
qed


theorem classify_default_and_tie_break_witness:
  "analyze_dbt_schema blank_world (Some ''/proj'') =
     Inr [(''analysis'', PDict [(''star_schema'', PInt 0), (''snowflake_schema'', PInt 0),
                                (''data_vault'', PInt 0)]),
          (''likely_modeling_pattern'', PStr ''star_schema'')]
   \<and> analyze_dbt_schema tie_world (Some ''/proj'') =
     Inr [(''analysis'', PDict [(''star_schema'', PInt 0), (''snowflake_schema'', PInt 1),
                                (''data_vault'', PInt 1)]),
          (''likely_modeling_pattern'', PStr ''snowflake_schema'')]"
proof
  have h: "py_or (Some ''/proj'') (getenv blank_world ''DBT_PROJECT_LOCATION'') = Some ''/proj''"
    by (simp add: py_or_def)
  have e: "\<not> fs_exists blank_world (target_dir ''/proj'')"
    by (simp add: blank_world_def)
  from classify_default_and_tie_break [OF h] e
  show "analyze_dbt_schema blank_world (Some ''/proj'') =
     Inr [(''analysis'', PDict [(''star_schema'', PInt 0), (''snowflake_schema'', PInt 0),
                                (''data_vault'', PInt 0)]),
          (''likely_modeling_pattern'', PStr ''star_schema'')]"
    by blast
next
  have h: "py_or (Some ''/proj'') (getenv tie_world ''DBT_PROJECT_LOCATION'') = Some ''/proj''"
    by (simp add: py_or_def)
  have ev: "analyze_dbt_schema tie_world (Some ''/proj'') =
     Inr [(''analysis'', PDict [(''star_schema'', PInt 0), (''snowflake_schema'', PInt 1),
                                (''data_vault'', PInt 1)]),
          (''likely_modeling_pattern'', PStr ''snowflake_schema'')]"
    by code_simp
  from classify_default_and_tie_break [OF h] ev
  show "analyze_dbt_schema tie_world (Some ''/proj'') =
     Inr [(''analysis'', PDict [(''star_schema'', PInt 0), (''snowflake_schema'', PInt 1),
                                (''data_vault'', PInt 1)]),
          (''likely_modeling_pattern'', PStr ''snowflake_schema'')]"
    by blast
qed

lemma map_of_incr:
  "map_of (incr k d) k' = (if k' = k then map_option (\<lambda>v. v + 1) (map_of d k') else map_of d k')"
  by (induction d) (auto simp: incr_def)

lemma score_sql_star_file:
  assumes "any_tag [''dim_'', ''fact_''] sql"
    and "\<not> any_tag [''hub_'', ''link_'', ''sat_''] sql"
    and "\<not> any_tag [''bridge_'', ''snowflake_''] sql"
  shows "score_sql sql [(''star_schema'', a), (''snowflake_schema'', b), (''data_vault'', c)] =
           [(''star_schema'',
             a + (if contains ''join'' sql \<and> contains '' on '' sql then 2 else 1)),
            (''snowflake_schema'', b), (''data_vault'', c)]"
  using assms by (simp add: score_sql_def incr_def)

lemma scan_files_star:
  assumes "\<forall>f \<in> set files. endswith f ''.sql'' \<longrightarrow>
             (\<exists>text. fs_read w (os_path_join root [f]) = Inr text
                \<and> any_tag [''dim_'', ''fact_''] (lower text)
                \<and> \<not> any_tag [''hub_'', ''link_'', ''sat_''] (lower text)
                \<and> \<not> any_tag [''bridge_'', ''snowflake_''] (lower text))"
  shows "\<exists>k. int (length (filter (\<lambda>f. endswith f ''.sql'') files)) \<le> k
           \<and> scan_files w root files
                [(''star_schema'', a), (''snowflake_schema'', b), (''data_vault'', c)] =
               Inr [(''star_schema'', a + k), (''snowflake_schema'', b), (''data_vault'', c)]"
  using assms
proof (induction files arbitrary: a)
  case Nil
  show ?case by simp
next
  case (Cons f files)
  show ?case
  proof (cases "endswith f ''.sql''")
    case False
    with Cons.IH [of a] Cons.prems show ?thesis by simp
  next
    case True
    with Cons.prems obtain sql where
      rd: "fs_read w (os_path_join root [f]) = Inr sql"
      and t1: "any_tag [''dim_'', ''fact_''] (lower sql)"
      and t2: "\<not> any_tag [''hub_'', ''link_'', ''sat_''] (lower sql)"
      and t3: "\<not> any_tag [''bridge_'', ''snowflake_''] (lower sql)"
      by auto
    define d :: int where
      "d = (if contains ''join'' (lower sql) \<and> contains '' on '' (lower sql) then 2 else 1)"
    have d1: "1 \<le> d" by (simp add: d_def)
    from Cons.prems have "\<forall>f \<in> set files. endswith f ''.sql'' \<longrightarrow>
             (\<exists>text. fs_read w (os_path_join root [f]) = Inr text
                \<and> any_tag [''dim_'', ''fact_''] (lower text)
                \<and> \<not> any_tag [''hub_'', ''link_'', ''sat_''] (lower text)
                \<and> \<not> any_tag [''bridge_'', ''snowflake_''] (lower text))"
      by simp
    from Cons.IH [OF this, of "a + d"] obtain k where
      k: "int (length (filter (\<lambda>f. endswith f ''.sql'') files)) \<le> k"
      and sc: "scan_files w root files
                [(''star_schema'', a + d), (''snowflake_schema'', b), (''data_vault'', c)] =
               Inr [(''star_schema'', a + d + k), (''snowflake_schema'', b), (''data_vault'', c)]"
      by blast
    have "scan_files w root (f # files)
            [(''star_schema'', a), (''snowflake_schema'', b), (''data_vault'', c)] =
          Inr [(''star_schema'', a + (d + k)), (''snowflake_schema'', b), (''data_vault'', c)]"
      using True rd sc score_sql_star_file [OF t1 t2 t3, of a b c]
      by (simp add: d_def add.assoc)
    moreover have "int (length (filter (\<lambda>f. endswith f ''.sql'') (f # files))) \<le> d + k"
      using True k d1 by simp
    ultimately show ?thesis by blast
  qed
qed

lemma scan_walk_star:
  assumes "\<forall>(root, files) \<in> set walk. \<forall>f \<in> set files. endswith f ''.sql'' \<longrightarrow>
             (\<exists>sql. fs_read w (os_path_join root [f]) = Inr sql
                \<and> any_tag [''dim_'', ''fact_''] (lower sql)
                \<and> \<not> any_tag [''hub_'', ''link_'', ''sat_''] (lower sql)
                \<and> \<not> any_tag [''bridge_'', ''snowflake_''] (lower sql))"
  shows "\<exists>k. (\<Sum>(root, files) \<leftarrow> walk. int (length (filter (\<lambda>f. endswith f ''.sql'') files))) \<le> k
           \<and> scan_walk w walk
                [(''star_schema'', a), (''snowflake_schema'', b), (''data_vault'', c)] =
               Inr [(''star_schema'', a + k), (''snowflake_schema'', b), (''data_vault'', c)]"
  using assms
proof (induction walk arbitrary: a)
  case Nil
  show ?case by simp
next
  case (Cons x walk)
  obtain root files where x: "x = (root, files)" by (cases x)
  from Cons.prems x have here: "\<forall>f \<in> set files. endswith f ''.sql'' \<longrightarrow>
             (\<exists>sql. fs_read w (os_path_join root [f]) = Inr sql
                \<and> any_tag [''dim_'', ''fact_''] (lower sql)
                \<and> \<not> any_tag [''hub_'', ''link_'', ''sat_''] (lower sql)
                \<and> \<not> any_tag [''bridge_'', ''snowflake_''] (lower sql))"
    by simp
  from scan_files_star [OF here, of a b c] obtain k1 where
    k1: "int (length (filter (\<lambda>f. endswith f ''.sql'') files)) \<le> k1"
    and s1: "scan_files w root files
               [(''star_schema'', a), (''snowflake_schema'', b), (''data_vault'', c)] =
             Inr [(''star_schema'', a + k1), (''snowflake_schema'', b), (''data_vault'', c)]"
    by blast
  from Cons.prems have "\<forall>(root, files) \<in> set walk. \<forall>f \<in> set files. endswith f ''.sql'' \<longrightarrow>
             (\<exists>sql. fs_read w (os_path_join root [f]) = Inr sql
                \<and> any_tag [''dim_'', ''fact_''] (lower sql)
                \<and> \<not> any_tag [''hub_'', ''link_'', ''sat_''] (lower sql)
                \<and> \<not> any_tag [''bridge_'', ''snowflake_''] (lower sql))"
    by simp
  from Cons.IH [OF this, of "a + k1"] obtain k2 where
    k2: "(\<Sum>(root, files) \<leftarrow> walk. int (length (filter (\<lambda>f. endswith f ''.sql'') files))) \<le> k2"
    and s2: "scan_walk w walk
               [(''star_schema'', a + k1), (''snowflake_schema'', b), (''data_vault'', c)] =
             Inr [(''star_schema'', a + k1 + k2), (''snowflake_schema'', b), (''data_vault'', c)]"
    by blast
  have "scan_walk w (x # walk)
          [(''star_schema'', a), (''snowflake_schema'', b), (''data_vault'', c)] =
        Inr [(''star_schema'', a + (k1 + k2)), (''snowflake_schema'', b), (''data_vault'', c)]"
    using x s1 s2 by (simp add: add.assoc)
  moreover have "(\<Sum>(root, files) \<leftarrow> x # walk.
                    int (length (filter (\<lambda>f. endswith f ''.sql'') files))) \<le> k1 + k2"
    using x k1 k2 by simp
  ultimately show ?case by blast
qed

text \<open>
  Claim C5. A file whose lower-cased text contains \<open>join\<close> and \<open> on \<close> and one of
  \<open>dim_\<close>, \<open>fact_\<close> raises the \<open>star_schema\<close> score by exactly 2: the two star rules
  add up. And when the compiled directory holds at least two \<open>.sql\<close> files, every one of
  them readable, containing \<open>dim_\<close> or \<open>fact_\<close> and none of \<open>hub_\<close>, \<open>link_\<close>,
  \<open>sat_\<close>, \<open>bridge_\<close>, \<open>snowflake_\<close>, the classification returns the guess
  \<open>star_schema\<close> with a \<open>star_schema\<close> score of at least 2 and the two other scores 0.
\<close>

theorem star_rules_are_additive:
  "(contains ''join'' sql \<and> contains '' on '' sql \<and> any_tag [''dim_'', ''fact_''] sql
      \<and> map_of p ''star_schema'' = Some a
     \<longrightarrow> map_of (score_sql sql p) ''star_schema'' = Some (a + 2))
   \<and> (py_or project_dir (getenv w ''DBT_PROJECT_LOCATION'') = Some pd
      \<and> (\<forall>(root, files) \<in> set (os_walk w (target_dir pd)).
            \<forall>f \<in> set files. endswith f ''.sql'' \<longrightarrow>
              (\<exists>sql. fs_read w (os_path_join root [f]) = Inr sql
                 \<and> any_tag [''dim_'', ''fact_''] (lower sql)
                 \<and> \<not> any_tag [''hub_'', ''link_'', ''sat_''] (lower sql)
                 \<and> \<not> any_tag [''bridge_'', ''snowflake_''] (lower sql)))
      \<and> 2 \<le> (\<Sum>(root, files) \<leftarrow> os_walk w (target_dir pd).
                  int (length (filter (\<lambda>f. endswith f ''.sql'') files)))
     \<longrightarrow> (\<exists>n\<ge>2. analyze_dbt_schema w project_dir =
            Inr [(''analysis'', PDict [(''star_schema'', PInt n),
                                       (''snowflake_schema'', PInt 0),
                                       (''data_vault'', PInt 0)]),
                 (''likely_modeling_pattern'', PStr ''star_schema'')]))"
proof (intro conjI impI)
  assume "contains ''join'' sql \<and> contains '' on '' sql \<and> any_tag [''dim_'', ''fact_''] sql
      \<and> map_of p ''star_schema'' = Some a"
  then show "map_of (score_sql sql p) ''star_schema'' = Some (a + 2)"
    by (simp add: score_sql_def Let_def map_of_incr)
next
  assume h: "py_or project_dir (getenv w ''DBT_PROJECT_LOCATION'') = Some pd
      \<and> (\<forall>(root, files) \<in> set (os_walk w (target_dir pd)).
            \<forall>f \<in> set files. endswith f ''.sql'' \<longrightarrow>
              (\<exists>sql. fs_read w (os_path_join root [f]) = Inr sql
                 \<and> any_tag [''dim_'', ''fact_''] (lower sql)
                 \<and> \<not> any_tag [''hub_'', ''link_'', ''sat_''] (lower sql)
                 \<and> \<not> any_tag [''bridge_'', ''snowflake_''] (lower sql)))
      \<and> 2 \<le> (\<Sum>(root, files) \<leftarrow> os_walk w (target_dir pd).
                  int (length (filter (\<lambda>f. endswith f ''.sql'') files)))"
  then have pd: "py_or project_dir (getenv w ''DBT_PROJECT_LOCATION'') = Some pd"
    and good: "\<forall>(root, files) \<in> set (os_walk w (target_dir pd)).
            \<forall>f \<in> set files. endswith f ''.sql'' \<longrightarrow>
              (\<exists>sql. fs_read w (os_path_join root [f]) = Inr sql
                 \<and> any_tag [''dim_'', ''fact_''] (lower sql)
                 \<and> \<not> any_tag [''hub_'', ''link_'', ''sat_''] (lower sql)
                 \<and> \<not> any_tag [''bridge_'', ''snowflake_''] (lower sql))"
    and two: "2 \<le> (\<Sum>(root, files) \<leftarrow> os_walk w (target_dir pd).
                  int (length (filter (\<lambda>f. endswith f ''.sql'') files)))"
    by blast+
  from scan_walk_star [OF good, of 0 0 0] obtain k where
    k: "(\<Sum>(root, files) \<leftarrow> os_walk w (target_dir pd).
           int (length (filter (\<lambda>f. endswith f ''.sql'') files))) \<le> k"
    and sc: "scan_walk w (os_walk w (target_dir pd)) initial_patterns =
             Inr [(''star_schema'', k), (''snowflake_schema'', 0), (''data_vault'', 0)]"
    by (auto simp: initial_patterns_def)
  from k two have k2: "2 \<le> k" by simp
  with pd sc have "analyze_dbt_schema w project_dir =
            Inr [(''analysis'', PDict [(''star_schema'', PInt k),
                                       (''snowflake_schema'', PInt 0),
                                       (''data_vault'', PInt 0)]),
                 (''likely_modeling_pattern'', PStr ''star_schema'')]"
    by (simp add: analyze_dbt_schema_def max_key_three)
  with k2 show "\<exists>n\<ge>2. analyze_dbt_schema w project_dir =
            Inr [(''analysis'', PDict [(''star_schema'', PInt n),
                                       (''snowflake_schema'', PInt 0),
                                       (''data_vault'', PInt 0)]),
                 (''likely_modeling_pattern'', PStr ''star_schema'')]"
    by blast
qed


theorem star_rules_are_additive_witness:
  "map_of (score_sql ''select * from fact_orders f join dim_customers c on f.cid = c.id''
             initial_patterns) ''star_schema'' = Some 2
   \<and> (\<exists>n\<ge>2. analyze_dbt_schema star_world (Some ''/proj'') =
            Inr [(''analysis'', PDict [(''star_schema'', PInt n),
                                       (''snowflake_schema'', PInt 0),
                                       (''data_vault'', PInt 0)]),
                 (''likely_modeling_pattern'', PStr ''star_schema'')])"
proof
  have j: "contains ''join'' ''select * from fact_orders f join dim_customers c on f.cid = c.id''"
    by code_simp
  have o: "contains '' on '' ''select * from fact_orders f join dim_customers c on f.cid = c.id''"
    by code_simp
  have d: "any_tag [''dim_'', ''fact_'']
             ''select * from fact_orders f join dim_customers c on f.cid = c.id''"
    by code_simp
  have m: "map_of initial_patterns ''star_schema'' = Some 0"
    by (simp add: initial_patterns_def)
  from star_rules_are_additive
         [of "''select * from fact_orders f join dim_customers c on f.cid = c.id''"
             initial_patterns 0] j o d m
  show "map_of (score_sql ''select * from fact_orders f join dim_customers c on f.cid = c.id''
             initial_patterns) ''star_schema'' = Some 2"
    by simp
next
  let ?dim = "''select id, name from raw.customers as dim_customers''"
  let ?fact = "''select * from raw.orders o JOIN dim_customers c ON o.cid = c.id''"
  have pd: "py_or (Some ''/proj'') (getenv star_world ''DBT_PROJECT_LOCATION'') = Some ''/proj''"
    by (simp add: py_or_def)
  have wk: "os_walk star_world (target_dir ''/proj'') =
              [(''/proj/target/compiled'', []),
               (''/proj/target/compiled/shop/models'',
                [''dim_customers.sql'', ''fact_orders.sql''])]"
    by code_simp
  have r1: "fs_read star_world
              (os_path_join ''/proj/target/compiled/shop/models'' [''dim_customers.sql'']) =
            Inr ?dim"
    by code_simp
  have r2: "fs_read star_world
              (os_path_join ''/proj/target/compiled/shop/models'' [''fact_orders.sql'']) =
            Inr ?fact"
    by code_simp
  have g1: "any_tag [''dim_'', ''fact_''] (lower ?dim)
            \<and> \<not> any_tag [''hub_'', ''link_'', ''sat_''] (lower ?dim)
            \<and> \<not> any_tag [''bridge_'', ''snowflake_''] (lower ?dim)"
    by code_simp
  have g2: "any_tag [''dim_'', ''fact_''] (lower ?fact)
            \<and> \<not> any_tag [''hub_'', ''link_'', ''sat_''] (lower ?fact)
            \<and> \<not> any_tag [''bridge_'', ''snowflake_''] (lower ?fact)"
    by code_simp
  have e1: "endswith ''dim_customers.sql'' ''.sql''" and e2: "endswith ''fact_orders.sql'' ''.sql''"
    by code_simp+
  have good: "\<forall>(root, files) \<in> set (os_walk star_world (target_dir ''/proj'')).
            \<forall>f \<in> set files. endswith f ''.sql'' \<longrightarrow>
              (\<exists>sql. fs_read star_world (os_path_join root [f]) = Inr sql
                 \<and> any_tag [''dim_'', ''fact_''] (lower sql)
                 \<and> \<not> any_tag [''hub_'', ''link_'', ''sat_''] (lower sql)
                 \<and> \<not> any_tag [''bridge_'', ''snowflake_''] (lower sql))"
    unfolding wk using r1 r2 g1 g2 by simp
  have two: "2 \<le> (\<Sum>(root, files) \<leftarrow> os_walk star_world (target_dir ''/proj'').
                  int (length (filter (\<lambda>f. endswith f ''.sql'') files)))"
    unfolding wk using e1 e2 by simp
  from star_rules_are_additive [of _ _ _ "Some ''/proj''" star_world "''/proj''"] pd good two
  show "\<exists>n\<ge>2. analyze_dbt_schema star_world (Some ''/proj'') =
            Inr [(''analysis'', PDict [(''star_schema'', PInt n),
                                       (''snowflake_schema'', PInt 0),
                                       (''data_vault'', PInt 0)]),
                 (''likely_modeling_pattern'', PStr ''star_schema'')]"
    by blast
qed

section \<open>Properties of the dialect scan\<close>

lemma scan_file_unreadable:
  "fs_read w (path_join dbt_path rel_path) = Inl e \<Longrightarrow>
   scan_file w dbt_path patterns rel_path =
     ([Open (path_join dbt_path rel_path),
       Warning (''Warning: Could not read '' @ path_join dbt_path rel_path @ '': '' @ e)], [])"
  by (simp add: scan_file_def Let_def)

lemma scan_sql_files_append:
  "scan_sql_files w dbt_path patterns (xs @ ys) =
     (fst (scan_sql_files w dbt_path patterns xs) @ fst (scan_sql_files w dbt_path patterns ys),
      snd (scan_sql_files w dbt_path patterns xs) @ snd (scan_sql_files w dbt_path patterns ys))"
  by (induction xs) (auto simp: split_beta)

lemma scan_skips_unreadable:
  assumes "fs_read w (path_join dbt_path bad) = Inl e"
  shows "snd (scan_sql_files w dbt_path patterns (xs @ bad # ys)) =
           snd (scan_sql_files w dbt_path patterns (xs @ ys))"
    and "Warning (''Warning: Could not read '' @ path_join dbt_path bad @ '': '' @ e)
           \<in> set (fst (scan_sql_files w dbt_path patterns (xs @ bad # ys)))"
  using assms
  by (simp_all add: scan_sql_files_append scan_file_unreadable split_beta)

lemma warehouse_names:
  "set (map fst WAREHOUSE_PATTERNS) = {''snowflake'', ''bigquery'', ''redshift'', ''postgres''}"
  by (auto simp: WAREHOUSE_PATTERNS_def)














lemma scan_dir_first:
  "\<exists>rest. fst (scan_dir w dbt_path patterns search_dir) =
            Exists (path_join dbt_path search_dir) # rest"
  by (cases "path_exists w (path_join dbt_path search_dir)")
     (simp_all add: scan_dir_def Let_def split_beta)

lemma scan_dirs_first:
  "\<exists>rest. fst (scan_dirs w dbt_path patterns (search_dir # dirs)) =
            Exists (path_join dbt_path search_dir) # rest"
proof -
  from scan_dir_first [of w dbt_path patterns search_dir] obtain rest where
    r: "fst (scan_dir w dbt_path patterns search_dir) =
          Exists (path_join dbt_path search_dir) # rest"
    by blast
  show ?thesis
  proof (cases "snd (scan_dir w dbt_path patterns search_dir)")
    case (Inl e)
    with r show ?thesis by (simp add: split_beta)
  next
    case (Inr cs)
    with r show ?thesis by (simp add: split_beta)
  qed
qed

lemma scan_report_status:
  "map_of (scan_report source_warehouse target_warehouse candidates) ''status'' =
     Some (PStr ''success'')"
  by (simp add: scan_report_def)

lemma valid_tag_trace:
  assumes "lower source_warehouse \<in> set (map fst WAREHOUSE_PATTERNS)"
  shows "\<exists>rest. fst (dbt_identify_translation_candidates w source_warehouse target_warehouse) =
          LoadDotenv # Exists (path_join (project_location w) ''models'') # rest"
proof -
  from assms obtain patterns where
    pats: "map_of WAREHOUSE_PATTERNS (lower source_warehouse) = Some patterns"
    by (metis map_of_eq_None_iff not_Some_eq set_map)
  from scan_dirs_first [of w "project_location w" patterns "''models''"
                          "[''macros'', ''analyses'', ''tests'']"]
  obtain rest where
    "fst (scan_dirs w (project_location w) patterns search_dirs) =
       Exists (path_join (project_location w) ''models'') # rest"
    unfolding search_dirs_def by blast
  with pats have "fst (scan_candidates w source_warehouse) =
       Exists (path_join (project_location w) ''models'') # rest"
    by (simp add: scan_candidates_def split_beta)
  with assms show ?thesis
    by (simp add: dbt_identify_translation_candidates_def split_beta)
qed

lemma valid_tag_status:
  assumes "lower source_warehouse \<in> set (map fst WAREHOUSE_PATTERNS)"
    and "snd (dbt_identify_translation_candidates w source_warehouse target_warehouse) = Inr d"
  shows "map_of d ''status'' = Some (PStr ''success'')"
proof -
  from assms obtain cs where "d = scan_report source_warehouse target_warehouse cs"
    by (auto simp: dbt_identify_translation_candidates_def split_beta split: sum.splits)
  then show ?thesis by (simp add: scan_report_status)
qed

text \<open>
  Claim C7, as the code has it. The tag is lower-cased before it is looked up. A tag whose
  lower-cased form is none of \<open>snowflake\<close>, \<open>bigquery\<close>, \<open>redshift\<close>, \<open>postgres\<close> is
  answered with the error record and an empty candidate list, and nothing of the project
  has then been probed, listed or opened: the trace holds the \<open>.env\<close> lookup alone. A tag
  whose lower-cased form is one of the four proceeds without that error: the scan goes on
  to probe the \<open>models\<close> directory, it does not give the error record, and a record it
  returns has the status \<open>success\<close>.
\<close>

theorem unknown_warehouse_rejected:
  "(lower source_warehouse \<notin> {''snowflake'', ''bigquery'', ''redshift'', ''postgres''}
      \<longrightarrow> dbt_identify_translation_candidates w source_warehouse target_warehouse =
            ([LoadDotenv],
             Inr [(''status'', PStr ''error''),
                  (''message'', PStr (unknown_warehouse_message source_warehouse)),
                  (''candidates'', PList [])]))
   \<and> (lower source_warehouse \<in> {''snowflake'', ''bigquery'', ''redshift'', ''postgres''}
      \<longrightarrow> (\<exists>rest. fst (dbt_identify_translation_candidates w source_warehouse
                          target_warehouse) =
                    LoadDotenv # Exists (path_join (project_location w) ''models'') # rest)
          \<and> snd (dbt_identify_translation_candidates w source_warehouse target_warehouse) \<noteq>
              Inr [(''status'', PStr ''error''),
                   (''message'', PStr (unknown_warehouse_message source_warehouse)),
                   (''candidates'', PList [])]
          \<and> (\<forall>d. snd (dbt_identify_translation_candidates w source_warehouse
                         target_warehouse) = Inr d
                \<longrightarrow> map_of d ''status'' = Some (PStr ''success'')))"
proof (intro conjI impI allI)
  assume "lower source_warehouse \<notin> {''snowflake'', ''bigquery'', ''redshift'', ''postgres''}"
  then show "dbt_identify_translation_candidates w source_warehouse target_warehouse =
            ([LoadDotenv],
             Inr [(''status'', PStr ''error''),
                  (''message'', PStr (unknown_warehouse_message source_warehouse)),
                  (''candidates'', PList [])])"
    unfolding warehouse_names [symmetric]
    by (simp add: dbt_identify_translation_candidates_def)
next
  assume "lower source_warehouse \<in> {''snowflake'', ''bigquery'', ''redshift'', ''postgres''}"
  then have valid: "lower source_warehouse \<in> set (map fst WAREHOUSE_PATTERNS)"
    unfolding warehouse_names .
  from valid show
    "\<exists>rest. fst (dbt_identify_translation_candidates w source_warehouse target_warehouse) =
          LoadDotenv # Exists (path_join (project_location w) ''models'') # rest"
    by (rule valid_tag_trace)
  show "snd (dbt_identify_translation_candidates w source_warehouse target_warehouse) \<noteq>
              Inr [(''status'', PStr ''error''),
                   (''message'', PStr (unknown_warehouse_message source_warehouse)),
                   (''candidates'', PList [])]"
  proof
    assume "snd (dbt_identify_translation_candidates w source_warehouse target_warehouse) =
              Inr [(''status'', PStr ''error''),
                   (''message'', PStr (unknown_warehouse_message source_warehouse)),
                   (''candidates'', PList [])]"
    from valid_tag_status [OF valid this] show False by simp
  qed
  fix d
  assume "snd (dbt_identify_translation_candidates w source_warehouse target_warehouse) = Inr d"
  with valid show "map_of d ''status'' = Some (PStr ''success'')"
    by (rule valid_tag_status)
qed

theorem unknown_warehouse_rejected_witness:
  "dbt_identify_translation_candidates snowflake_world ''oracle'' (Some ''bigquery'') =
     ([LoadDotenv],
      Inr [(''status'', PStr ''error''),
           (''message'', PStr (''Unknown source warehouse '' @ q @ ''oracle'' @ q
                               @ ''. Supported: snowflake, bigquery, redshift, postgres'')),
           (''candidates'', PList [])])
   \<and> snd (dbt_identify_translation_candidates snowflake_world ''Snowflake'' None) \<noteq>
       Inr [(''status'', PStr ''error''),
            (''message'', PStr (unknown_warehouse_message ''Snowflake'')),
            (''candidates'', PList [])]"
proof
  have n: "lower ''oracle'' \<notin> {''snowflake'', ''bigquery'', ''redshift'', ''postgres''}"
    by code_simp
  have m: "unknown_warehouse_message ''oracle'' =
             ''Unknown source warehouse '' @ q @ ''oracle'' @ q
               @ ''. Supported: snowflake, bigquery, redshift, postgres''"
    by code_simp
  from unknown_warehouse_rejected [of "''oracle''" snowflake_world "Some ''bigquery''"] n m
  show "dbt_identify_translation_candidates snowflake_world ''oracle'' (Some ''bigquery'') =
     ([LoadDotenv],
      Inr [(''status'', PStr ''error''),
           (''message'', PStr (''Unknown source warehouse '' @ q @ ''oracle'' @ q
                               @ ''. Supported: snowflake, bigquery, redshift, postgres'')),
           (''candidates'', PList [])])"
    by simp
next
  have y: "lower ''Snowflake'' \<in> {''snowflake'', ''bigquery'', ''redshift'', ''postgres''}"
    by code_simp
  from unknown_warehouse_rejected [of "''Snowflake''" snowflake_world None] y
  show "snd (dbt_identify_translation_candidates snowflake_world ''Snowflake'' None) \<noteq>
       Inr [(''status'', PStr ''error''),
            (''message'', PStr (unknown_warehouse_message ''Snowflake'')),
            (''candidates'', PList [])]"
    by blast
qed

text \<open>
  The claim as worded fails on a tag in capitals: \<open>SNOWFLAKE\<close> is not one of the four
  strings, yet the scan is not refused: it walks the project and returns \<open>success\<close> with
  the one file it found.
\<close>

theorem upper_case_warehouse_counterexample:
  "''SNOWFLAKE'' \<notin> {''snowflake'', ''bigquery'', ''redshift'', ''postgres''}
   \<and> dbt_identify_translation_candidates unreadable_world ''SNOWFLAKE'' None =
       ([LoadDotenv, Exists ''/proj/models'', Rglob ''/proj/models'',
         Open ''/proj/models/locked.sql'',
         Warning ''Warning: Could not read /proj/models/locked.sql: [Errno 13] Permission denied'',
         Open ''/proj/models/dim_users.sql'', Exists ''/proj/macros'',
         Exists ''/proj/analyses'', Exists ''/proj/tests''],
        Inr [(''status'', PStr ''success''),
             (''message'', PStr ''Found 1 file(s) with SNOWFLAKE-specific syntax that may need translation.''),
             (''candidates'',
              PList [PDict [(''file'', PStr ''models/dim_users.sql''),
                            (''full_path'', PStr ''/proj/models/dim_users.sql''),
                            (''detected_syntax'',
                             PList [PStr (bs @ ''bIFF'' @ bs @ ''s*'' @ bs @ ''('')]),
                            (''pattern_count'', PInt 1)]]),
             (''total_files'', PInt 1),
             (''source_warehouse'', PStr ''SNOWFLAKE''),
             (''target_warehouse'', PNone)])"
  by code_simp

section \<open>Properties of the file search\<close>

lemma py_replace_absent:
  "\<not> sublist old s \<Longrightarrow> py_replace old new s = s"
proof (induction old new s rule: py_replace.induct)
  case (1 old new)
  show ?case by simp
next
  case (2 old new c cs)
  from "2.prems" have np: "\<not> prefix old (c # cs)"
    using prefix_imp_sublist by blast
  from "2.prems" have "\<not> sublist old cs"
    by (meson sublist_Cons_right)
  with "2.IH"(2) np show ?case by simp
qed

lemma py_replace_hit:
  "py_replace ''.sql'' new (''.sql'' @ s) = new @ py_replace ''.sql'' new s"
  by simp

lemma py_replace_miss:
  "\<not> prefix old (c # cs) \<Longrightarrow> py_replace old new (c # cs) = c # py_replace old new cs"
  by simp

lemma prefix_sql_inside:
  "prefix ''.sql'' (c # cs @ ''.sql'' @ v) \<longleftrightarrow> prefix ''.sql'' (c # cs)"
  by (cases cs; cases "tl cs"; cases "tl (tl cs)") auto

lemma py_replace_split:
  "py_replace ''.sql'' [] (u @ ''.sql'' @ v) =
     py_replace ''.sql'' [] u @ py_replace ''.sql'' [] v"
proof (induction u rule: length_induct)
  case (1 u)
  show ?case
  proof (cases u)
    case Nil
    then show ?thesis using py_replace_hit [of "[]" v] by simp
  next
    case (Cons c cs)
    show ?thesis
    proof (cases "prefix ''.sql'' (c # cs)")
      case True
      then obtain u' where u': "c # cs = ''.sql'' @ u'"
        by (auto simp: prefix_def)
      then have short: "length u' < length u" using Cons by simp
      have "py_replace ''.sql'' [] (u @ ''.sql'' @ v) =
            py_replace ''.sql'' [] (u' @ ''.sql'' @ v)"
        using Cons u' py_replace_hit [of "[]" "u' @ ''.sql'' @ v"] by simp
      also have "\<dots> = py_replace ''.sql'' [] u' @ py_replace ''.sql'' [] v"
        using "1.IH" short by blast
      also have "py_replace ''.sql'' [] u' = py_replace ''.sql'' [] u"
        using Cons u' py_replace_hit [of "[]" u'] by simp
      finally show ?thesis .
    next
      case False
      then have no: "\<not> prefix ''.sql'' (c # (cs @ ''.sql'' @ v))"
        using prefix_sql_inside [of c cs v] by blast
      have short: "length cs < length u" using Cons by simp
      have a: "py_replace ''.sql'' [] (c # (cs @ ''.sql'' @ v)) =
                 c # py_replace ''.sql'' [] (cs @ ''.sql'' @ v)"
        by (rule py_replace_miss [OF no])
      have b: "py_replace ''.sql'' [] (cs @ ''.sql'' @ v) =
                 py_replace ''.sql'' [] cs @ py_replace ''.sql'' [] v"
        using "1.IH" short by blast
      have c: "py_replace ''.sql'' [] (c # cs) = c # py_replace ''.sql'' [] cs"
        by (rule py_replace_miss [OF False])
      show ?thesis
        using a b c unfolding Cons by (simp del: py_replace.simps)
    qed
  qed
qed

lemma lower_char_idem: "lower_char (lower_char c) = lower_char c"
proof (cases "65 \<le> (of_char c :: nat) \<and> (of_char c :: nat) \<le> 90")
  case False
  then show ?thesis by (auto simp: lower_char_def Let_def)
next
  case True
  then have "lower_char c = char_of ((of_char c :: nat) + 32)"
    by (simp add: lower_char_def)
  moreover from True have "(of_char (char_of ((of_char c :: nat) + 32) :: char) :: nat) =
                           of_char c + 32"
    by (simp add: of_char_of)
  ultimately show ?thesis using True by (simp add: lower_char_def Let_def)
qed

lemma lower_idem: "lower (lower s) = lower s"
  by (simp add: lower_def lower_char_idem)

lemma lower_append: "lower (a @ b) = lower a @ lower b"
  by (simp add: lower_def)

lemma lower_length: "length (lower s) = length s"
  by (simp add: lower_def)

lemma lower_parts:
  assumes "lower t = u @ m @ v"
  shows "lower u = u" and "lower v = v"
proof -
  have "lower (lower t) = lower t" by (rule lower_idem)
  with assms have "lower (u @ m @ v) = u @ m @ v" by simp
  then have eq: "lower u @ lower m @ lower v = u @ m @ v"
    by (simp only: lower_append)
  then show "lower u = u" by (simp add: lower_length)
  with eq have "lower m @ lower v = m @ v" by simp
  then show "lower v = v" by (simp add: lower_length)
qed

lemma search_clean_absent:
  "\<not> contains ''.sql'' (lower search_term) \<Longrightarrow> search_clean search_term = lower search_term"
  by (simp add: search_clean_def contains_def py_replace_absent)

lemma search_clean_split:
  assumes "lower search_term = u @ ''.sql'' @ v"
  shows "search_clean search_term = search_clean u @ search_clean v"
proof -
  from lower_parts [OF assms] have "lower u = u" and "lower v = v" .
  with assms py_replace_split [of u v] show ?thesis
    by (simp add: search_clean_def)
qed

lemma search_filename_clean: "search_filename search_term = search_clean (path_name search_term)"
  by (simp add: search_filename_def search_clean_def)

lemma split_on_nonempty: "split_on sep s \<noteq> []"
  by (induction s) (auto split: list.splits)

lemma split_on_absent: "sep \<notin> set s \<Longrightarrow> split_on sep s = [s]"
  by (induction s) auto

lemma split_on_append:
  "split_on sep (a @ sep # b) = split_on sep a @ split_on sep b"
proof (induction a)
  case Nil
  then show ?case by simp
next
  case (Cons c a)
  obtain x xs where x: "split_on sep a = x # xs"
    using split_on_nonempty [of sep a] by (cases "split_on sep a") auto
  with Cons show ?case by simp
qed

lemma path_parts_append: "path_parts (a @ CHR ''/'' # b) = path_parts a @ path_parts b"
  by (simp add: path_parts_def split_on_append)

lemma path_parts_no_empty: "[] \<notin> set (path_parts s)"
  by (simp add: path_parts_def)

lemma path_name_empty: "path_name s = [] \<longleftrightarrow> path_parts s = []"
proof
  assume e: "path_name s = []"
  show "path_parts s = []"
  proof (rule ccontr)
    assume n: "path_parts s \<noteq> []"
    then have "last (path_parts s) \<in> set (path_parts s)" by simp
    with e n path_parts_no_empty [of s] show False by (simp add: path_name_def)
  qed
next
  assume "path_parts s = []"
  then show "path_name s = []" by (simp add: path_name_def)
qed

lemma path_name_plain:
  "CHR ''/'' \<notin> set s \<Longrightarrow> path_name s = (if s = ''.'' then [] else s)"
  by (simp add: path_name_def path_parts_def split_on_absent)

lemma path_name_append:
  "path_name (a @ ''/'' @ b) = (if path_name b = [] then path_name a else path_name b)"
  by (simp add: path_name_empty) (simp add: path_name_def path_parts_append)

lemma file_matches_iff:
  "file_matches search_term rel_path \<longleftrightarrow>
      contains (search_filename search_term) (lower (name_stem (path_name rel_path)))
      \<or> contains (search_clean search_term) (lower (name_stem (path_name rel_path)))
      \<or> contains (search_clean search_term) (lower rel_path)"
  by (auto simp: file_matches_def Let_def contains_def)

lemma matches_for_exts_set:
  "matches_for_exts w dbt_path search_term search_dir exts = Inr ms \<Longrightarrow>
   set ms = {rel. (\<exists>ext \<in> set exts. rel \<in> set (fs_rglob w dbt_path search_dir ext))
                  \<and> file_matches search_term rel}"
proof (induction exts arbitrary: ms)
  case Nil
  then show ?case by auto
next
  case (Cons ext exts)
  from Cons.prems obtain ms' where
    r: "matches_for_exts w dbt_path search_term search_dir exts = Inr ms'"
    and ms: "ms = filter (file_matches search_term) (fs_rglob w dbt_path search_dir ext) @ ms'"
    by (auto split: option.splits sum.splits)
  from Cons.IH [OF r] ms show ?case by auto
qed

lemma matches_in_dir_set:
  "matches_in_dir w dbt_path search_term exts search_dir = Inr ms \<Longrightarrow>
   set ms = {rel. fs_exists w (path_join dbt_path search_dir)
                  \<and> (\<exists>ext \<in> set exts. rel \<in> set (fs_rglob w dbt_path search_dir ext))
                  \<and> file_matches search_term rel}"
proof -
  assume a: "matches_in_dir w dbt_path search_term exts search_dir = Inr ms"
  show ?thesis
  proof (cases "fs_exists w (path_join dbt_path search_dir)")
    case False
    with a have "ms = []"
      by (auto simp: matches_in_dir_def path_exists_def split: option.splits sum.splits)
    with False show ?thesis by simp
  next
    case True
    with a have "matches_for_exts w dbt_path search_term search_dir exts = Inr ms"
      by (auto simp: matches_in_dir_def path_exists_def split: option.splits sum.splits)
    from matches_for_exts_set [OF this] True show ?thesis by simp
  qed
qed

lemma matches_in_dirs_set:
  "matches_in_dirs w dbt_path search_term exts dirs = Inr ms \<Longrightarrow>
   set ms = {rel. \<exists>search_dir \<in> set dirs.
                    fs_exists w (path_join dbt_path search_dir)
                    \<and> (\<exists>ext \<in> set exts. rel \<in> set (fs_rglob w dbt_path search_dir ext))
                    \<and> file_matches search_term rel}"
proof (induction dirs arbitrary: ms)
  case Nil
  then show ?case by auto
next
  case (Cons d dirs)
  from Cons.prems obtain ms1 ms2 where
    one: "matches_in_dir w dbt_path search_term exts d = Inr ms1"
    and two: "matches_in_dirs w dbt_path search_term exts dirs = Inr ms2"
    and ms: "ms = ms1 @ ms2"
    by (auto split: sum.splits)
  from matches_in_dir_set [OF one] Cons.IH [OF two] ms show ?case by auto
qed

lemma search_for_files_set:
  assumes "search_for_files w dbt_root search_term exts = Inr result"
  shows "sorted result" and "distinct result"
    and "set result = {rel. \<exists>search_dir \<in> set search_dirs.
                    fs_exists w (path_join (project_location w) search_dir)
                    \<and> (\<exists>ext \<in> set exts.
                          rel \<in> set (fs_rglob w (project_location w) search_dir ext))
                    \<and> file_matches search_term rel}"
proof -
  from assms obtain ms where
    ms: "matches_in_dirs w (project_location w) search_term exts search_dirs = Inr ms"
    and r: "result = sort (remdups ms)"
    by (auto simp: search_for_files_def split: sum.splits)
  from r show "sorted result" and "distinct result" by simp_all
  from matches_in_dirs_set [OF ms] r
  show "set result = {rel. \<exists>search_dir \<in> set search_dirs.
                    fs_exists w (path_join (project_location w) search_dir)
                    \<and> (\<exists>ext \<in> set exts.
                          rel \<in> set (fs_rglob w (project_location w) search_dir ext))
                    \<and> file_matches search_term rel}"
    by simp
qed

text \<open>
  Claim C3, as the code has it. Whenever the search returns, its result is the sorted,
  duplicate-free list of exactly those files, found under an existing search directory
  with one of the extensions, for which the lower-cased stem of the file name contains
  the normalized last component of the search term, or contains the normalized search
  term, or for which the lower-cased relative path contains the normalized search term
  (containing includes being equal). Normalizing is lower-casing and then deleting every
  occurrence of \<open>.sql\<close>, wherever it stands: a term whose lower-cased form has no \<open>.sql\<close>
  is only lower-cased, and a term whose lower-cased form is \<open>u.sqlv\<close> normalizes to the
  normalized \<open>u\<close> followed by the normalized \<open>v\<close>; the two equations fix the result for
  every term. The last component is what \<open>Path(term).name\<close> gives: the term itself when
  it has no slash (nothing for \<open>.\<close>), else the last component of what follows a slash,
  or of what precedes it when nothing follows.
\<close>

theorem file_match_rule:
  "(\<forall>result. search_for_files w dbt_root search_term extensions = Inr result \<longrightarrow>
       sorted result \<and> distinct result
       \<and> (\<forall>rel. rel \<in> set result \<longleftrightarrow>
             (\<exists>search_dir \<in> set search_dirs.
                 fs_exists w (path_join (project_location w) search_dir)
                 \<and> (\<exists>ext \<in> set extensions.
                       rel \<in> set (fs_rglob w (project_location w) search_dir ext)))
             \<and> (contains (search_filename search_term) (lower (name_stem (path_name rel)))
                \<or> contains (search_clean search_term) (lower (name_stem (path_name rel)))
                \<or> contains (search_clean search_term) (lower rel))))
   \<and> (\<not> contains ''.sql'' (lower search_term) \<longrightarrow> search_clean search_term = lower search_term)
   \<and> (lower search_term = u @ ''.sql'' @ v
        \<longrightarrow> search_clean search_term = search_clean u @ search_clean v)
   \<and> search_filename search_term = search_clean (path_name search_term)
   \<and> (CHR ''/'' \<notin> set search_term
        \<longrightarrow> path_name search_term = (if search_term = ''.'' then [] else search_term))
   \<and> path_name (a @ ''/'' @ b) = (if path_name b = [] then path_name a else path_name b)"
proof (intro conjI allI impI)
  fix result
  assume r: "search_for_files w dbt_root search_term extensions = Inr result"
  from search_for_files_set(1) [OF r] show "sorted result" .
  from search_for_files_set(2) [OF r] show "distinct result" .
  fix rel
  from search_for_files_set(3) [OF r]
  show "rel \<in> set result \<longleftrightarrow>
             (\<exists>search_dir \<in> set search_dirs.
                 fs_exists w (path_join (project_location w) search_dir)
                 \<and> (\<exists>ext \<in> set extensions.
                       rel \<in> set (fs_rglob w (project_location w) search_dir ext)))
             \<and> (contains (search_filename search_term) (lower (name_stem (path_name rel)))
                \<or> contains (search_clean search_term) (lower (name_stem (path_name rel)))
                \<or> contains (search_clean search_term) (lower rel))"
    by (auto simp: file_matches_iff)
next
  assume "\<not> contains ''.sql'' (lower search_term)"
  then show "search_clean search_term = lower search_term" by (rule search_clean_absent)
next
  assume "lower search_term = u @ ''.sql'' @ v"
  then show "search_clean search_term = search_clean u @ search_clean v"
    by (rule search_clean_split)
next
  show "search_filename search_term = search_clean (path_name search_term)"
    by (rule search_filename_clean)
next
  assume "CHR ''/'' \<notin> set search_term"
  then show "path_name search_term = (if search_term = ''.'' then [] else search_term)"
    by (rule path_name_plain)
next
  show "path_name (a @ ''/'' @ b) = (if path_name b = [] then path_name a else path_name b)"
    by (rule path_name_append)
qed

theorem file_match_rule_witness:
  "''models/marts/dim_users.sql'' \<in>
     set [''models/marts/dim_users.sql'', ''models/staging/stg_users.sql'',
          ''models/users_snapshot.sql'']
   \<and> search_clean ''USERS.SQL'' = ''users''
   \<and> search_clean ''my.model.sql'' = ''my.model''
   \<and> search_filename ''staging/users'' = ''users''"
proof (intro conjI)
  have ev: "search_for_files search_world ''/srv/shop'' ''staging/users'' [''.sql''] =
              Inr [''models/marts/dim_users.sql'', ''models/staging/stg_users.sql'',
                   ''models/users_snapshot.sql'']"
    by code_simp
  have d: "''models'' \<in> set search_dirs" by (simp add: search_dirs_def)
  have e: "fs_exists search_world (path_join (project_location search_world) ''models'')"
    by code_simp
  have g: "''models/marts/dim_users.sql'' \<in>
             set (fs_rglob search_world (project_location search_world) ''models'' ''.sql'')"
    by code_simp
  have m: "contains (search_filename ''staging/users'')
             (lower (name_stem (path_name ''models/marts/dim_users.sql'')))"
    by code_simp
  from file_match_rule [of search_world "''/srv/shop''" "''staging/users''" "[''.sql'']"] ev
  have "''models/marts/dim_users.sql'' \<in>
          set [''models/marts/dim_users.sql'', ''models/staging/stg_users.sql'',
               ''models/users_snapshot.sql''] \<longleftrightarrow>
        (\<exists>search_dir \<in> set search_dirs.
            fs_exists search_world (path_join (project_location search_world) search_dir)
            \<and> (\<exists>ext \<in> set [''.sql''].
                  ''models/marts/dim_users.sql'' \<in>
                    set (fs_rglob search_world (project_location search_world) search_dir ext)))
        \<and> (contains (search_filename ''staging/users'')
              (lower (name_stem (path_name ''models/marts/dim_users.sql'')))
           \<or> contains (search_clean ''staging/users'')
              (lower (name_stem (path_name ''models/marts/dim_users.sql'')))
           \<or> contains (search_clean ''staging/users'') (lower ''models/marts/dim_users.sql''))"
    by blast
  moreover from d e g have "\<exists>search_dir \<in> set search_dirs.
            fs_exists search_world (path_join (project_location search_world) search_dir)
            \<and> (\<exists>ext \<in> set [''.sql''].
                  ''models/marts/dim_users.sql'' \<in>
                    set (fs_rglob search_world (project_location search_world) search_dir ext))"
    by auto
  ultimately show "''models/marts/dim_users.sql'' \<in>
     set [''models/marts/dim_users.sql'', ''models/staging/stg_users.sql'',
          ''models/users_snapshot.sql'']"
    using m by blast
next
  have l: "lower ''USERS.SQL'' = ''users'' @ ''.sql'' @ []" by code_simp
  have n: "\<not> contains ''.sql'' (lower ''users'')" by code_simp
  have lu: "lower ''users'' = ''users''" by code_simp
  have n0: "\<not> contains ''.sql'' (lower [])" by code_simp
  have l0: "lower [] = []" by (simp add: lower_def)
  from file_match_rule [of _ _ "''users''"] n lu
  have a: "search_clean ''users'' = ''users''" by simp
  from file_match_rule [of _ _ "[]"] n0 l0
  have b: "search_clean [] = []" by simp
  from file_match_rule [of _ _ "''USERS.SQL''" _ "''users''" "[]"] l
  have "search_clean ''USERS.SQL'' = search_clean ''users'' @ search_clean []" by blast
  with a b show "search_clean ''USERS.SQL'' = ''users''" by simp
next
  have l: "lower ''my.model.sql'' = ''my.model'' @ ''.sql'' @ []" by code_simp
  have n: "\<not> contains ''.sql'' (lower ''my.model'')" by code_simp
  have lu: "lower ''my.model'' = ''my.model''" by code_simp
  have n0: "\<not> contains ''.sql'' (lower [])" by code_simp
  have l0: "lower [] = []" by (simp add: lower_def)
  from file_match_rule [of _ _ "''my.model''"] n lu
  have a: "search_clean ''my.model'' = ''my.model''" by simp
  from file_match_rule [of _ _ "[]"] n0 l0
  have b: "search_clean [] = []" by simp
  from file_match_rule [of _ _ "''my.model.sql''" _ "''my.model''" "[]"] l
  have "search_clean ''my.model.sql'' = search_clean ''my.model'' @ search_clean []" by blast
  with a b show "search_clean ''my.model.sql'' = ''my.model''" by simp
next
  have p: "path_name ''staging/users'' = ''users''" by code_simp
  have n: "\<not> contains ''.sql'' (lower ''users'')" by code_simp
  have lu: "lower ''users'' = ''users''" by code_simp
  from file_match_rule [of _ _ "''users''"] n lu
  have a: "search_clean ''users'' = ''users''" by simp
  from file_match_rule [of _ _ "''staging/users''"] p a
  show "search_filename ''staging/users'' = ''users''" by simp
qed

text \<open>
  The claim as worded fails twice. A \<open>.sql\<close> inside the term is deleted too, so
  \<open>stg.sql_users\<close> finds \<open>stg_users.sql\<close>; and a term with a directory part matches on
  its last component alone, so \<open>staging/users\<close> finds \<open>models/marts/dim_users.sql\<close>, which
  none of the three conditions of the claim admits.
\<close>

theorem file_match_counterexample:
  "spec_normalize ''stg.sql_users'' = ''stg.sql_users''
   \<and> search_clean ''stg.sql_users'' = ''stg_users''
   \<and> file_matches ''stg.sql_users'' ''models/staging/stg_users.sql''
   \<and> \<not> spec_file_matches ''stg.sql_users'' ''models/staging/stg_users.sql''
   \<and> file_matches ''staging/users'' ''models/marts/dim_users.sql''
   \<and> \<not> spec_file_matches ''staging/users'' ''models/marts/dim_users.sql''"
  by code_simp

lemma matches_for_exts_cong:
  assumes "fs_rglob w = fs_rglob w'" and "fs_rglob_error w = fs_rglob_error w'"
  shows "matches_for_exts w dbt_path search_term search_dir exts =
         matches_for_exts w' dbt_path search_term search_dir exts"
  using assms by (induction exts) (simp_all split: option.split sum.split)

lemma matches_in_dir_cong:
  assumes "fs_exists w = fs_exists w'" and "fs_denied w = fs_denied w'"
    and "fs_rglob w = fs_rglob w'" and "fs_rglob_error w = fs_rglob_error w'"
  shows "matches_in_dir w dbt_path search_term exts search_dir =
         matches_in_dir w' dbt_path search_term exts search_dir"
  using assms(1,2) matches_for_exts_cong [OF assms(3,4)]
  by (simp add: matches_in_dir_def path_exists_def split: option.split sum.split)

lemma matches_in_dirs_cong:
  assumes "fs_exists w = fs_exists w'" and "fs_denied w = fs_denied w'"
    and "fs_rglob w = fs_rglob w'" and "fs_rglob_error w = fs_rglob_error w'"
  shows "matches_in_dirs w dbt_path search_term exts dirs =
         matches_in_dirs w' dbt_path search_term exts dirs"
  using matches_in_dir_cong [OF assms] by (induction dirs) (simp_all split: sum.split)

text \<open>
  Claim C10. The search never reads its \<open>dbt_root\<close> argument: two calls that see the same
  \<open>DBT_PROJECT_LOCATION\<close>, the same working directory and the same file system give the
  same outcome for the same search term, whatever the two values of \<open>dbt_root\<close>. The
  directory walked is the one \<open>project_location\<close> takes from the environment.
\<close>

theorem search_ignores_dbt_root:
  "getenv w ''DBT_PROJECT_LOCATION'' = getenv w' ''DBT_PROJECT_LOCATION''
   \<and> getcwd w = getcwd w' \<and> fs_exists w = fs_exists w' \<and> fs_denied w = fs_denied w'
   \<and> fs_rglob w = fs_rglob w' \<and> fs_rglob_error w = fs_rglob_error w'
   \<longrightarrow> search_for_files w dbt_root search_term extensions =
       search_for_files w' dbt_root' search_term extensions"
proof
  assume same: "getenv w ''DBT_PROJECT_LOCATION'' = getenv w' ''DBT_PROJECT_LOCATION''
   \<and> getcwd w = getcwd w' \<and> fs_exists w = fs_exists w' \<and> fs_denied w = fs_denied w'
   \<and> fs_rglob w = fs_rglob w' \<and> fs_rglob_error w = fs_rglob_error w'"
  then have loc: "project_location w = project_location w'"
    by (simp add: project_location_def split: option.split)
  from same have "matches_in_dirs w (project_location w') search_term extensions search_dirs =
                  matches_in_dirs w' (project_location w') search_term extensions search_dirs"
    by (intro matches_in_dirs_cong) simp_all
  with loc show "search_for_files w dbt_root search_term extensions =
       search_for_files w' dbt_root' search_term extensions"
    by (simp add: search_for_files_def)
qed

theorem search_ignores_dbt_root_witness:
  "search_for_files search_world ''/srv/shop'' ''users'' [''.sql''] =
     Inr [''models/marts/dim_users.sql'', ''models/staging/stg_users.sql'',
          ''models/users_snapshot.sql'']
   \<and> search_for_files (search_world\<lparr>gemini := (\<lambda>_. Inl ''offline'')\<rparr>) ''/nowhere''
        ''users'' [''.sql''] =
     Inr [''models/marts/dim_users.sql'', ''models/staging/stg_users.sql'',
          ''models/users_snapshot.sql'']"
proof -
  have ev: "search_for_files search_world ''/srv/shop'' ''users'' [''.sql''] =
     Inr [''models/marts/dim_users.sql'', ''models/staging/stg_users.sql'',
          ''models/users_snapshot.sql'']"
    by code_simp
  from search_ignores_dbt_root
         [of search_world "search_world\<lparr>gemini := (\<lambda>_. Inl ''offline'')\<rparr>"
             "''/srv/shop''" "''users''" "[''.sql'']" "''/nowhere''"]
  have "search_for_files search_world ''/srv/shop'' ''users'' [''.sql''] =
        search_for_files (search_world\<lparr>gemini := (\<lambda>_. Inl ''offline'')\<rparr>) ''/nowhere''
          ''users'' [''.sql'']"
    by simp
  with ev show ?thesis by simp
qed

section \<open>Properties of the translation and of the result records\<close>

lemma translate_file_result:
  assumes "translate_file w file_path actual s t = Inr d"
  shows "map_of d ''status'' \<in> {Some (PStr ''success''), Some (PStr ''error'')}
         \<and> (\<exists>m. map_of d ''message'' = Some (PStr m))
         \<and> map_of d ''suggestions'' = None"
  using assms
  by (auto simp: translate_file_def Let_def split: sum.splits option.splits)

lemma not_found_message_instructs:
  "contains ''Please provide the full path'' (not_found_message file_path)"
proof -
  have "not_found_message file_path =
          (''File not found at '' @ q @ file_path @ q
             @ ''. No similar files found in the dbt project. '')
          @ ''Please provide the full path'' @ '' relative to the dbt project root.''"
    by (simp add: not_found_message_def)
  then show ?thesis
    unfolding contains_def by (metis sublist_appendI)
qed

lemma dbt_translate_missing:
  assumes "path_exists w (path_join (project_location w) file_path) = Inr False"
  shows "dbt_translate w file_path s t =
     (case search_for_files w (project_location w) file_path [''.sql''] of
        Inl e \<Rightarrow> Inl e
      | Inr suggestions \<Rightarrow>
          if suggestions = []
          then Inr [(''status'', PStr ''error''),
                    (''message'', PStr (not_found_message file_path)),
                    (''translated_content'', PNone),
                    (''saved_path'', PNone),
                    (''suggestions'', PList [])]
          else if length suggestions = 1
          then translate_file w file_path (hd suggestions) s t
          else Inr [(''status'', PStr ''clarification_needed''),
                    (''message'', PStr (clarification_message file_path suggestions)),
                    (''translated_content'', PNone),
                    (''saved_path'', PNone),
                    (''suggestions'', PList (map PStr (take 10 suggestions))),
                    (''original_path'', PStr file_path)])"
  using assms by (simp add: dbt_translate_def)


text \<open>
  Claim C6. When the requested path does not exist, the translation calls the file search
  and goes by the number of matches. None: the \<open>error\<close> record, whose message asks for
  the full path. Exactly one: the match takes the place of the path and the translation
  goes on as for a path that exists, so that no record it returns asks for clarification
  or carries suggestions. Two or more: the \<open>clarification_needed\<close> record with at most
  ten of the candidates and the path the caller gave. (A search that raises leaves the
  translation with its exception.)
\<close>

theorem missing_path_routing:
  assumes "path_exists w (path_join (project_location w) file_path) = Inr False"
  shows "(search_for_files w (project_location w) file_path [''.sql''] = Inr []
            \<longrightarrow> dbt_translate w file_path source_warehouse target_warehouse =
                  Inr [(''status'', PStr ''error''),
                       (''message'', PStr (not_found_message file_path)),
                       (''translated_content'', PNone),
                       (''saved_path'', PNone),
                       (''suggestions'', PList [])]
                \<and> contains ''Please provide the full path'' (not_found_message file_path))
       \<and> (\<forall>m. search_for_files w (project_location w) file_path [''.sql''] = Inr [m]
            \<longrightarrow> dbt_translate w file_path source_warehouse target_warehouse =
                  translate_file w file_path m source_warehouse target_warehouse
                \<and> (\<forall>d. dbt_translate w file_path source_warehouse target_warehouse = Inr d
                      \<longrightarrow> map_of d ''status'' \<noteq> Some (PStr ''clarification_needed'')
                          \<and> map_of d ''suggestions'' = None))
       \<and> (\<forall>ms. search_for_files w (project_location w) file_path [''.sql''] = Inr ms
                  \<and> 2 \<le> length ms
            \<longrightarrow> dbt_translate w file_path source_warehouse target_warehouse =
                  Inr [(''status'', PStr ''clarification_needed''),
                       (''message'', PStr (clarification_message file_path ms)),
                       (''translated_content'', PNone),
                       (''saved_path'', PNone),
                       (''suggestions'', PList (map PStr (take 10 ms))),
                       (''original_path'', PStr file_path)]
                \<and> length (take 10 ms) \<le> 10)
       \<and> (\<forall>e. search_for_files w (project_location w) file_path [''.sql''] = Inl e
            \<longrightarrow> dbt_translate w file_path source_warehouse target_warehouse = Inl e)"
proof (intro conjI impI allI)
  assume "search_for_files w (project_location w) file_path [''.sql''] = Inr []"
  then show "dbt_translate w file_path source_warehouse target_warehouse =
                  Inr [(''status'', PStr ''error''),
                       (''message'', PStr (not_found_message file_path)),
                       (''translated_content'', PNone),
                       (''saved_path'', PNone),
                       (''suggestions'', PList [])]"
    by (simp add: dbt_translate_missing [OF assms])
next
  show "contains ''Please provide the full path'' (not_found_message file_path)"
    by (rule not_found_message_instructs)
next
  fix m
  assume one: "search_for_files w (project_location w) file_path [''.sql''] = Inr [m]"
  then show eq: "dbt_translate w file_path source_warehouse target_warehouse =
                  translate_file w file_path m source_warehouse target_warehouse"
    by (simp add: dbt_translate_missing [OF assms])
  fix d
  assume "dbt_translate w file_path source_warehouse target_warehouse = Inr d"
  with eq have tf: "translate_file w file_path m source_warehouse target_warehouse = Inr d"
    by simp
  from translate_file_result [OF tf]
  show "map_of d ''status'' \<noteq> Some (PStr ''clarification_needed'')"
    by auto
  from translate_file_result [OF tf] show "map_of d ''suggestions'' = None"
    by blast
next
  fix ms
  assume many: "search_for_files w (project_location w) file_path [''.sql''] = Inr ms
                  \<and> 2 \<le> length ms"
  then have "ms \<noteq> []" and "length ms \<noteq> 1" by auto
  with many show "dbt_translate w file_path source_warehouse target_warehouse =
                  Inr [(''status'', PStr ''clarification_needed''),
                       (''message'', PStr (clarification_message file_path ms)),
                       (''translated_content'', PNone),
                       (''saved_path'', PNone),
                       (''suggestions'', PList (map PStr (take 10 ms))),
                       (''original_path'', PStr file_path)]"
    by (simp add: dbt_translate_missing [OF assms])
  show "length (take 10 ms) \<le> 10" by simp
next
  fix e
  assume "search_for_files w (project_location w) file_path [''.sql''] = Inl e"
  then show "dbt_translate w file_path source_warehouse target_warehouse = Inl e"
    by (simp add: dbt_translate_missing [OF assms])
qed

theorem missing_path_routing_witness:
  "dbt_translate translate_world ''no_such_model'' ''snowflake'' ''bigquery'' =
     Inr [(''status'', PStr ''error''),
          (''message'', PStr (not_found_message ''no_such_model'')),
          (''translated_content'', PNone),
          (''saved_path'', PNone),
          (''suggestions'', PList [])]
   \<and> dbt_translate translate_world ''cents_to_dollars'' ''snowflake'' ''bigquery'' =
       translate_file translate_world ''cents_to_dollars'' ''macros/cents_to_dollars.sql''
         ''snowflake'' ''bigquery''
   \<and> dbt_translate translate_world ''users'' ''snowflake'' ''bigquery'' =
       Inr [(''status'', PStr ''clarification_needed''),
            (''message'',
             PStr (clarification_message ''users''
                    [''models/marts/dim_users.sql'', ''models/staging/stg_users.sql'',
                     ''models/users_snapshot.sql''])),
            (''translated_content'', PNone),
            (''saved_path'', PNone),
            (''suggestions'',
             PList [PStr ''models/marts/dim_users.sql'', PStr ''models/staging/stg_users.sql'',
                    PStr ''models/users_snapshot.sql'']),
            (''original_path'', PStr ''users'')]"
proof (intro conjI)
  have ne: "path_exists translate_world
              (path_join (project_location translate_world) ''no_such_model'') = Inr False"
    by code_simp
  have sf: "search_for_files translate_world (project_location translate_world)
              ''no_such_model'' [''.sql''] = Inr []"
    by code_simp
  from missing_path_routing [OF ne, of "''snowflake''" "''bigquery''"] sf
  show "dbt_translate translate_world ''no_such_model'' ''snowflake'' ''bigquery'' =
     Inr [(''status'', PStr ''error''),
          (''message'', PStr (not_found_message ''no_such_model'')),
          (''translated_content'', PNone),
          (''saved_path'', PNone),
          (''suggestions'', PList [])]"
    by blast
next
  have ne: "path_exists translate_world
              (path_join (project_location translate_world) ''cents_to_dollars'') = Inr False"
    by code_simp
  have sf: "search_for_files translate_world (project_location translate_world)
              ''cents_to_dollars'' [''.sql''] = Inr [''macros/cents_to_dollars.sql'']"
    by code_simp
  from missing_path_routing [OF ne, of "''snowflake''" "''bigquery''"] sf
  show "dbt_translate translate_world ''cents_to_dollars'' ''snowflake'' ''bigquery'' =
       translate_file translate_world ''cents_to_dollars'' ''macros/cents_to_dollars.sql''
         ''snowflake'' ''bigquery''"
    by blast
next
  have ne: "path_exists translate_world
              (path_join (project_location translate_world) ''users'') = Inr False"
    by code_simp
  have sf: "search_for_files translate_world (project_location translate_world)
              ''users'' [''.sql''] =
            Inr [''models/marts/dim_users.sql'', ''models/staging/stg_users.sql'',
                 ''models/users_snapshot.sql'']"
    by code_simp
  have two: "2 \<le> length [''models/marts/dim_users.sql'', ''models/staging/stg_users.sql'',
                            ''models/users_snapshot.sql'']"
    by simp
  from missing_path_routing [OF ne, of "''snowflake''" "''bigquery''"] sf two
  have "dbt_translate translate_world ''users'' ''snowflake'' ''bigquery'' =
       Inr [(''status'', PStr ''clarification_needed''),
            (''message'',
             PStr (clarification_message ''users''
                    [''models/marts/dim_users.sql'', ''models/staging/stg_users.sql'',
                     ''models/users_snapshot.sql''])),
            (''translated_content'', PNone),
            (''saved_path'', PNone),
            (''suggestions'',
             PList (map PStr (take 10
                    [''models/marts/dim_users.sql'', ''models/staging/stg_users.sql'',
                     ''models/users_snapshot.sql'']))),
            (''original_path'', PStr ''users'')]"
    by blast
  then show "dbt_translate translate_world ''users'' ''snowflake'' ''bigquery'' =
       Inr [(''status'', PStr ''clarification_needed''),
            (''message'',
             PStr (clarification_message ''users''
                    [''models/marts/dim_users.sql'', ''models/staging/stg_users.sql'',
                     ''models/users_snapshot.sql''])),
            (''translated_content'', PNone),
            (''saved_path'', PNone),
            (''suggestions'',
             PList [PStr ''models/marts/dim_users.sql'', PStr ''models/staging/stg_users.sql'',
                    PStr ''models/users_snapshot.sql'']),
            (''original_path'', PStr ''users'')]"
    by simp
qed










section \<open>Unreadable files during the two bulk scans\<close>

text \<open>
  The dialect scan reads each file inside a \<open>try\<close>: an unreadable file leaves a warning
  and no candidate, and the files around it are scanned as if it were absent
  (\<open>scan_skips_unreadable\<close>). The schema classification has no such guard: the first
  \<open>.sql\<close> file that cannot be read ends the scan with its exception.
\<close>

lemma classify_aborts_on_unreadable:
  "endswith f ''.sql'' \<Longrightarrow> fs_read w (os_path_join root [f]) = Inl e \<Longrightarrow>
   \<forall>g \<in> set before. \<not> endswith g ''.sql'' \<Longrightarrow>
   scan_files w root (before @ f # after) p = Inl e"
  by (induction before) auto

text \<open>
  Claim C2, evaluated where it breaks. The compiled directory holds \<open>locked.sql\<close>, which
  cannot be read, and \<open>dim_users.sql\<close>, which can. The classification raises the
  permission error and returns no record, so \<open>dim_users.sql\<close> is never scored. On a
  project with the same two files under \<open>models\<close> the dialect scan returns \<open>success\<close>
  with the readable file as its one candidate.
\<close>

theorem classify_raises_on_unreadable_file:
  "analyze_dbt_schema unreadable_world (Some ''/proj'') = Inl ''[Errno 13] Permission denied''
   \<and> snd (dbt_identify_translation_candidates unreadable_world ''snowflake'' None) =
       Inr [(''status'', PStr ''success''),
        (''message'', PStr ''Found 1 file(s) with snowflake-specific syntax that may need translation.''),
        (''candidates'',
         PList [PDict [(''file'', PStr ''models/dim_users.sql''),
                       (''full_path'', PStr ''/proj/models/dim_users.sql''),
                       (''detected_syntax'', PList [PStr (bs @ ''bIFF'' @ bs @ ''s*'' @ bs @ ''('')]),
                       (''pattern_count'', PInt 1)]]),
        (''total_files'', PInt 1),
        (''source_warehouse'', PStr ''snowflake''),
        (''target_warehouse'', PNone)]"
  by code_simp

end
